theory Spec2Isabelle
  imports Complex_Main "HOL-Library.Sublist"
begin

section \<open>Python values\<close>

text \<open>
  The monitor reads a YAML document and passes parts of it around untyped. The values
  that \<open>yaml.safe_load\<close> produces are modelled by \<open>pyobj\<close>: scalars, lists and mappings.
  A mapping is an association list in insertion order; its keys are strings, as the
  annotation \<open>Dict[str, Any]\<close> of the source says, and pairwise distinct, as in every
  Python dict. Text is a \<open>string\<close>; all literals of the source are ASCII, where code
  points and UTF-8 bytes coincide. YAML floats, dates and binaries are not modelled.
\<close>

datatype pyobj =
    PNone
  | PBool bool
  | PInt int
  | PStr string
  | PList "pyobj list"
  | PDict "(string \<times> pyobj) list"

text \<open>Exceptions: the class name, \<open>str(e)\<close>, and which \<open>except\<close> clauses of the source catch
  the class. Every modelled exception derives from \<open>Exception\<close>; \<open>SMTPException\<close> and
  \<open>SocketError\<close> mark the classes caught by \<open>except (smtplib.SMTPException, socket.error)\<close>.\<close>

datatype exn_family = SMTPException | SocketError | OtherException

datatype exn = Exn (family: exn_family) (cls_name: string) (detail: string)

definition ValueError :: "string \<Rightarrow> exn" where
  "ValueError m = Exn OtherException ''ValueError'' m"

definition TypeError :: "string \<Rightarrow> exn" where
  "TypeError m = Exn OtherException ''TypeError'' m"

definition AttributeError :: "string \<Rightarrow> exn" where
  "AttributeError m = Exn OtherException ''AttributeError'' m"

definition RuntimeError :: "string \<Rightarrow> exn" where
  "RuntimeError m = Exn OtherException ''RuntimeError'' m"

text \<open>Sequencing of computations that may raise.\<close>

definition bindE :: "exn + 'a \<Rightarrow> ('a \<Rightarrow> exn + 'b) \<Rightarrow> exn + 'b" where
  "bindE m f = (case m of Inl e \<Rightarrow> Inl e | Inr x \<Rightarrow> f x)"

text \<open>Truth value testing (\<open>if x\<close>, \<open>not x\<close>, \<open>x or y\<close>, \<open>bool(x)\<close>).\<close>

fun truthy :: "pyobj \<Rightarrow> bool" where
  "truthy PNone = False"
| "truthy (PBool b) = b"
| "truthy (PInt n) = (n \<noteq> 0)"
| "truthy (PStr s) = (s \<noteq> [])"
| "truthy (PList xs) = (xs \<noteq> [])"
| "truthy (PDict kvs) = (kvs \<noteq> [])"

definition py_or :: "pyobj \<Rightarrow> pyobj \<Rightarrow> pyobj" where
  "py_or a b = (if truthy a then a else b)"

text \<open>\<open>str.lower()\<close>, on ASCII letters.\<close>

definition lower_char :: "char \<Rightarrow> char" where
  "lower_char c =
     (case map_of (zip ''ABCDEFGHIJKLMNOPQRSTUVWXYZ'' ''abcdefghijklmnopqrstuvwxyz'') c of
        Some d \<Rightarrow> d
      | None \<Rightarrow> c)"

definition lower :: "string \<Rightarrow> string" where
  "lower s = map lower_char s"

text \<open>\<open>sep.join(xs)\<close>.\<close>

fun join :: "string \<Rightarrow> string list \<Rightarrow> string" where
  "join sep [] = []"
| "join sep [x] = x"
| "join sep (x # y # ys) = x @ sep @ join sep (y # ys)"

text \<open>Decimal rendering of integers (\<open>str(n)\<close>).\<close>

definition digit_char :: "nat \<Rightarrow> char" where
  "digit_char d = ''0123456789'' ! d"

function nat_digits :: "nat \<Rightarrow> string" where
  "nat_digits n = (if n < 10 then [digit_char n] else nat_digits (n div 10) @ [digit_char (n mod 10)])"
  by pat_completeness auto
termination
  by (relation "measure id") auto

declare nat_digits.simps [simp del]

definition str_of_int :: "int \<Rightarrow> string" where
  "str_of_int i = (if i < 0 then CHR ''-'' # nat_digits (nat (- i)) else nat_digits (nat i))"

text \<open>\<open>repr\<close> and \<open>str\<close>. The quoting of a string inside a container escapes the backslash,
  the chosen quote and the newline, carriage return and tab; other control characters are
  left as they are (Python writes them as \<open>\xNN\<close>).\<close>

definition repr_char :: "char \<Rightarrow> char \<Rightarrow> string" where
  "repr_char q c =
     (if c = CHR 0x5C then [CHR 0x5C, CHR 0x5C]
      else if c = q then [CHR 0x5C, q]
      else if c = CHR 0x0A then [CHR 0x5C, CHR ''n'']
      else if c = CHR 0x0D then [CHR 0x5C, CHR ''r'']
      else if c = CHR 0x09 then [CHR 0x5C, CHR ''t'']
      else [c])"

definition repr_str :: "string \<Rightarrow> string" where
  "repr_str s =
     (let q = (if CHR 0x27 \<in> set s \<and> CHR 0x22 \<notin> set s then CHR 0x22 else CHR 0x27)
      in [q] @ concat (map (repr_char q) s) @ [q])"

fun py_repr :: "pyobj \<Rightarrow> string" where
  "py_repr PNone = ''None''"
| "py_repr (PBool b) = (if b then ''True'' else ''False'')"
| "py_repr (PInt n) = str_of_int n"
| "py_repr (PStr s) = repr_str s"
| "py_repr (PList xs) = ''['' @ join '', '' (map py_repr xs) @ '']''"
| "py_repr (PDict kvs) =
     ''{'' @ join '', '' (map (\<lambda>(k, v). repr_str k @ '': '' @ py_repr v) kvs) @ ''}''"

fun py_str :: "pyobj \<Rightarrow> string" where
  "py_str (PStr s) = s"
| "py_str obj = py_repr obj"

text \<open>\<open>int(x)\<close>. Of a string, the literal forms accepted are an optional sign and decimal
  digits, surrounded by blanks; underscores between digits are not modelled.\<close>

definition is_space :: "char \<Rightarrow> bool" where
  "is_space c = (c \<in> set [CHR 0x20, CHR 0x09, CHR 0x0A, CHR 0x0B, CHR 0x0C, CHR 0x0D])"

definition strip :: "string \<Rightarrow> string" where
  "strip s = rev (dropWhile is_space (rev (dropWhile is_space s)))"

definition digit_val :: "char \<Rightarrow> nat option" where
  "digit_val c = map_of (zip ''0123456789'' [0, 1, 2, 3, 4, 5, 6, 7, 8, 9]) c"

fun digits_acc :: "nat \<Rightarrow> string \<Rightarrow> nat option" where
  "digits_acc acc [] = Some acc"
| "digits_acc acc (c # cs) =
     (case digit_val c of
        None \<Rightarrow> None
      | Some d \<Rightarrow> digits_acc (10 * acc + d) cs)"

definition digits_val :: "string \<Rightarrow> nat option" where
  "digits_val s = (if s = [] then None else digits_acc 0 s)"

definition int_literal :: "string \<Rightarrow> int option" where
  "int_literal s =
     (case strip s of
        [] \<Rightarrow> None
      | c # cs \<Rightarrow>
          if c = CHR ''-'' then map_option (\<lambda>n. - int n) (digits_val cs)
          else if c = CHR ''+'' then map_option int (digits_val cs)
          else map_option int (digits_val (c # cs)))"

fun py_int :: "pyobj \<Rightarrow> exn + int" where
  "py_int (PInt n) = Inr n"
| "py_int (PBool b) = Inr (if b then 1 else 0)"
| "py_int (PStr s) =
     (case int_literal s of
        Some n \<Rightarrow> Inr n
      | None \<Rightarrow> Inl (ValueError (''invalid literal for int() with base 10: '' @ repr_str s)))"
| "py_int obj = Inl (TypeError ''int() argument must be a string, a bytes-like object or a real number'')"

text \<open>Dictionary access. \<open>d.get(k, default)\<close> exists on dicts only; \<open>d[k] = v\<close> replaces the
  value of a present key in place and appends a new key.\<close>

fun py_get :: "pyobj \<Rightarrow> string \<Rightarrow> pyobj \<Rightarrow> exn + pyobj" where
  "py_get (PDict kvs) k dflt = Inr (case map_of kvs k of Some v \<Rightarrow> v | None \<Rightarrow> dflt)"
| "py_get obj k dflt = Inl (AttributeError ''object has no attribute get'')"

fun dict_set :: "(string \<times> pyobj) list \<Rightarrow> string \<Rightarrow> pyobj \<Rightarrow> (string \<times> pyobj) list" where
  "dict_set [] k v = [(k, v)]"
| "dict_set ((k', v') # kvs) k v =
     (if k' = k then (k, v) # kvs else (k', v') # dict_set kvs k v)"

text \<open>\<open>dict(a)\<close>: a copy of a dict; an empty sequence gives the empty dict. The conversion
  of a non-empty sequence of pairs is not modelled and raises here.\<close>

fun py_dict :: "pyobj \<Rightarrow> exn + (string \<times> pyobj) list" where
  "py_dict (PDict kvs) = Inr kvs"
| "py_dict (PList []) = Inr []"
| "py_dict (PStr []) = Inr []"
| "py_dict obj = Inl (TypeError ''cannot convert dictionary update sequence'')"

text \<open>\<open>for x in obj\<close>: the items of a list, the keys of a dict, the characters of a string.\<close>

fun py_iter :: "pyobj \<Rightarrow> exn + pyobj list" where
  "py_iter (PList xs) = Inr xs"
| "py_iter (PDict kvs) = Inr (map (\<lambda>(k, v). PStr k) kvs)"
| "py_iter (PStr s) = Inr (map (\<lambda>c. PStr [c]) s)"
| "py_iter obj = Inl (TypeError ''object is not iterable'')"

text \<open>\<open>bytes.split()\<close>: the maximal runs of non-blank characters.\<close>

fun split_aux :: "string \<Rightarrow> string \<Rightarrow> string list" where
  "split_aux cur [] = (if cur = [] then [] else [cur])"
| "split_aux cur (c # cs) =
     (if is_space c then (if cur = [] then split_aux [] cs else cur # split_aux [] cs)
      else split_aux (cur @ [c]) cs)"

definition py_split :: "string \<Rightarrow> string list" where
  "py_split s = split_aux [] s"

section \<open>Redaction of secrets\<close>

definition REDACTED :: string where
  "REDACTED = ''***REDACTED***''"

definition sensitive :: "string \<Rightarrow> bool" where
  "sensitive k = (lower k \<in> {''password'', ''pass'', ''secret'', ''token'', ''push_key''})"

text \<open>The loop over \<open>obj.items()\<close> assigns each key once, so \<open>redacted\<close> receives the
  entries in the order of \<open>obj\<close>.\<close>

fun redact_config :: "pyobj \<Rightarrow> pyobj" where
  "redact_config (PDict kvs) =
     PDict (map (\<lambda>(k, v). if sensitive k then (k, PStr REDACTED) else (k, redact_config v)) kvs)"
| "redact_config (PList xs) = PList (map redact_config xs)"
| "redact_config obj = obj"




section \<open>Configuration records\<close>

text \<open>The dataclasses of the source. \<open>SMTPSettings\<close> and \<open>IMAPSettings\<close> share field names
  in the source; here the fields carry the prefix of their class. The fields that
  \<open>parse_config\<close> copies from the document without conversion hold a \<open>pyobj\<close>.\<close>

record SMTPSettings =
  smtp_host :: string
  smtp_port :: int
  smtp_security :: string
  smtp_username :: pyobj
  smtp_password :: pyobj
  from_addr :: pyobj
  to_addr :: pyobj
  smtp_timeout :: int

record IMAPSettings =
  imap_host :: string
  imap_port :: int
  imap_security :: string
  imap_username :: pyobj
  imap_password :: pyobj
  mailbox :: string
  imap_timeout :: int

record PollSettings =
  timeout_seconds :: int
  interval_seconds :: int

record KumaSettings =
  push_url :: pyobj

record AccountConfig =
  name :: string
  smtp :: SMTPSettings
  imap :: IMAPSettings
  poll :: PollSettings
  delete_on_success :: bool
  kuma :: KumaSettings

section \<open>The outside world\<close>

text \<open>
  Everything the monitor does to its surroundings is recorded, in order, in a trace: the
  calls of \<open>logging\<close>, \<open>smtplib\<close>, \<open>imaplib\<close>, \<open>time.sleep\<close> and \<open>requests\<close>. The state
  also holds the reading of \<open>time.time()\<close>, in seconds.
\<close>

datatype level = DEBUG | INFO | WARNING | ERROR

datatype logarg = LStr string | LInt int | LNum real | LObj pyobj | LExn exn

datatype call =
    SMTP_SSL string int int
  | SMTP string int int
  | Ehlo
  | StartTLS
  | Login pyobj pyobj
  | Sendmail pyobj "pyobj list" string
  | SmtpExit
  | IMAP4_SSL string int
  | IMAP4 string int
  | ImapStartTLS
  | ImapLogin pyobj pyobj
  | Select string
  | Search string
  | Store string string string
  | Expunge
  | Logout
  | Sleep int
  | HttpGet pyobj "(string \<times> string) list"

datatype event = Log level string "logarg list" | Call call

record pstate =
  now :: real
  trace :: "event list"

definition emit :: "event list \<Rightarrow> pstate \<Rightarrow> pstate" where
  "emit evs s = s\<lparr>trace := trace s @ evs\<rparr>"

definition tick :: "real \<Rightarrow> pstate \<Rightarrow> pstate" where
  "tick d s = s\<lparr>now := now s + d\<rparr>"

text \<open>
  What the surroundings answer during the run of one account: the random token and the
  date string, for each library call whether it raises (the calls of one connection are
  numbered from 0 in the order the code makes them), what the mailbox answers to the
  \<open>SELECT\<close> and to each \<open>SEARCH\<close> criterion of the n-th poll attempt, and how long the send,
  the connect and each poll attempt take.
\<close>

record acct_env =
  uuid4_hex :: string
  formatdate :: string
  smtp_reply :: "nat \<Rightarrow> exn option"
  smtp_elapsed :: real
  imap_connect_reply :: "nat \<Rightarrow> exn option"
  imap_connect_elapsed :: real
  select_reply :: "nat \<Rightarrow> exn + string"
  search_reply :: "nat \<Rightarrow> string \<Rightarrow> exn + (string \<times> string option list)"
  attempt_elapsed :: "nat \<Rightarrow> real"
  delete_reply :: "nat \<Rightarrow> exn option"
  http_reply :: "exn option"

text \<open>A sequence of library calls, made until one raises.\<close>

fun do_calls :: "(nat \<Rightarrow> exn option) \<Rightarrow> nat \<Rightarrow> call list \<Rightarrow> event list \<times> exn option" where
  "do_calls reply k [] = ([], None)"
| "do_calls reply k (c # cs) =
     (case reply k of
        Some e \<Rightarrow> ([Call c], Some e)
      | None \<Rightarrow> (case do_calls reply (Suc k) cs of (evs, r) \<Rightarrow> (Call c # evs, r)))"

section \<open>Probe factory\<close>

definition crlf :: string where
  "crlf = [CHR 0x0D, CHR 0x0A]"

definition lf :: string where
  "lf = [CHR 0x0A]"

definition dquote :: string where
  "dquote = [CHR 0x22]"

text \<open>\<open>build_message\<close>; the token and the date come from \<open>uuid\<close> and \<open>email.utils\<close>.\<close>

definition message_headers :: "string \<Rightarrow> string \<Rightarrow> pyobj \<Rightarrow> pyobj \<Rightarrow> string \<Rightarrow> string list" where
  "message_headers token date from_a to_a subject_prefix =
     [''From: '' @ py_str from_a,
      ''To: '' @ py_str to_a,
      ''Subject: '' @ (subject_prefix @ '' token='' @ token),
      ''Date: '' @ date,
      ''Message-ID: '' @ (''<'' @ token @ ''@e2e-monitor>''),
      ''MIME-Version: 1.0'',
      ''Content-Type: text/plain; charset=utf-8'',
      ''Content-Transfer-Encoding: 8bit'']"

definition message_body :: "string \<Rightarrow> string \<Rightarrow> string" where
  "message_body token date =
     ''This is an automated E2E monitoring email.'' @ lf @
     ''Token: '' @ token @ lf @
     ''Time: '' @ date @ lf"

definition build_message ::
  "string \<Rightarrow> string \<Rightarrow> pyobj \<Rightarrow> pyobj \<Rightarrow> string \<Rightarrow> string \<times> string \<times> string" where
  "build_message token date from_a to_a subject_prefix =
     (let msg_id = ''<'' @ token @ ''@e2e-monitor>'';
          headers = message_headers token date from_a to_a subject_prefix;
          body = message_body token date;
          raw = join crlf headers @ crlf @ crlf @ body
      in (token, raw, msg_id))"

section \<open>Transport sender\<close>

definition has_credentials :: "pyobj \<Rightarrow> pyobj \<Rightarrow> bool" where
  "has_credentials u p = (truthy u \<and> truthy p)"

text \<open>The calls made inside the \<open>with\<close> block of \<open>smtp_send\<close>.\<close>

definition smtp_calls :: "SMTPSettings \<Rightarrow> string \<Rightarrow> call list" where
  "smtp_calls cfg raw_message =
     (let login = (if has_credentials (smtp_username cfg) (smtp_password cfg)
                   then [Login (smtp_username cfg) (smtp_password cfg)] else []);
          send = [Sendmail (from_addr cfg) [to_addr cfg] raw_message]
      in if smtp_security cfg = ''ssl'' then [Ehlo] @ login @ send
         else [Ehlo] @ (if smtp_security cfg = ''starttls'' then [StartTLS, Ehlo] else []) @
              login @ send)"

text \<open>\<open>smtp_send\<close>. Call 0 opens the connection; when it raises the \<open>with\<close> block is not
  entered. Leaving the block, by its end or by an exception, runs the exit of the
  connection, and an exception of the exit replaces the one of the block. The making of
  the TLS context and the logging are taken not to raise.\<close>

definition smtp_send :: "acct_env \<Rightarrow> SMTPSettings \<Rightarrow> string \<Rightarrow> pstate \<Rightarrow> pstate \<times> (exn + real)" where
  "smtp_send env cfg raw_message s =
     (let s0 = emit [Log DEBUG ''Preparing SMTP connection to %s:%s security=%s''
                       [LStr (smtp_host cfg), LInt (smtp_port cfg), LStr (smtp_security cfg)]] s;
          ctor = (if smtp_security cfg = ''ssl''
                  then SMTP_SSL (smtp_host cfg) (smtp_port cfg) (smtp_timeout cfg)
                  else SMTP (smtp_host cfg) (smtp_port cfg) (smtp_timeout cfg))
      in case smtp_reply env 0 of
           Some e \<Rightarrow> (tick (smtp_elapsed env) (emit [Call ctor] s0), Inl e)
         | None \<Rightarrow>
             (case do_calls (smtp_reply env) 1 (smtp_calls cfg raw_message) of
                (evs, r) \<Rightarrow>
                  (let s1 = tick (smtp_elapsed env) (emit (Call ctor # evs @ [Call SmtpExit]) s0)
                   in case smtp_reply env (Suc (length evs)) of
                        Some e' \<Rightarrow> (s1, Inl e')
                      | None \<Rightarrow>
                          (case r of
                             Some e \<Rightarrow> (s1, Inl e)
                           | None \<Rightarrow> (s1, Inr (smtp_elapsed env * 1000))))))"

section \<open>Mailbox poller\<close>

definition imap_calls :: "IMAPSettings \<Rightarrow> call list" where
  "imap_calls cfg =
     (if imap_security cfg = ''ssl'' then [IMAP4_SSL (imap_host cfg) (imap_port cfg)]
      else [IMAP4 (imap_host cfg) (imap_port cfg)] @
           (if imap_security cfg = ''starttls'' then [ImapStartTLS] else [])) @
     (if has_credentials (imap_username cfg) (imap_password cfg)
      then [ImapLogin (imap_username cfg) (imap_password cfg)] else [])"

text \<open>\<open>imap_connect\<close>: \<open>None\<close> stands for the open session.\<close>

definition imap_connect :: "acct_env \<Rightarrow> IMAPSettings \<Rightarrow> pstate \<Rightarrow> pstate \<times> exn option" where
  "imap_connect env cfg s =
     (case do_calls (imap_connect_reply env) 0 (imap_calls cfg) of
        (evs, r) \<Rightarrow>
          (tick (imap_connect_elapsed env)
             (emit (Log DEBUG ''Connecting IMAP to %s:%s security=%s''
                      [LStr (imap_host cfg), LInt (imap_port cfg), LStr (imap_security cfg)] # evs) s),
           r))"

definition criteria_list :: "string \<Rightarrow> string \<Rightarrow> string list" where
  "criteria_list token msg_id =
     [''(HEADER Message-ID '' @ dquote @ msg_id @ dquote @ '')'',
      ''(SUBJECT '' @ dquote @ token @ dquote @ '')'',
      ''(TEXT '' @ dquote @ token @ dquote @ '')'']"

text \<open>The loop over the criteria in \<open>imap_search_for_token\<close>. An answer is a raised
  exception or the pair \<open>(typ, data)\<close>; an item of \<open>data\<close> is a byte string or \<open>None\<close>, on
  which \<open>split\<close> does not exist.\<close>

fun search_loop ::
  "(string \<Rightarrow> exn + (string \<times> string option list)) \<Rightarrow> string list \<Rightarrow> event list \<times> (exn + string option)" where
  "search_loop reply [] = ([], Inr None)"
| "search_loop reply (crit # rest) =
     (case reply crit of
        Inl e \<Rightarrow> ([Call (Search crit)], Inl e)
      | Inr (typ, data) \<Rightarrow>
          if typ = ''OK'' \<and> data \<noteq> [] then
            (case hd data of
               None \<Rightarrow> ([Call (Search crit)], Inl (AttributeError ''NoneType object has no attribute split''))
             | Some d \<Rightarrow>
                 if py_split d \<noteq> [] then ([Call (Search crit)], Inr (Some (last (py_split d))))
                 else (case search_loop reply rest of (evs, r) \<Rightarrow> (Call (Search crit) # evs, r)))
          else (case search_loop reply rest of (evs, r) \<Rightarrow> (Call (Search crit) # evs, r)))"

text \<open>\<open>imap_search_for_token\<close>, on the n-th poll attempt.\<close>

definition imap_search_for_token ::
  "acct_env \<Rightarrow> nat \<Rightarrow> string \<Rightarrow> string \<Rightarrow> string \<Rightarrow> event list \<times> (exn + string option)" where
  "imap_search_for_token env n mbox token msg_id =
     (case select_reply env n of
        Inl e \<Rightarrow> ([Call (Select mbox)], Inl e)
      | Inr typ \<Rightarrow>
          if typ \<noteq> ''OK''
          then ([Call (Select mbox)],
                Inl (RuntimeError (''Failed to select mailbox '' @ mbox @ '': '' @ typ)))
          else (case search_loop (search_reply env n) (criteria_list token msg_id) of
                  (evs, r) \<Rightarrow> (Call (Select mbox) # evs, r)))"

text \<open>\<open>imap_delete\<close>: call 0 stores the flag, call 1 expunges.\<close>

definition imap_delete :: "acct_env \<Rightarrow> string \<Rightarrow> event list \<times> exn option" where
  "imap_delete env msgid =
     do_calls (delete_reply env) 0 [Store msgid ''+FLAGS'' (''('' @ [CHR 0x5C] @ ''Deleted)''), Expunge]"

text \<open>\<open>time.sleep\<close> raises on a negative length.\<close>

definition sleep :: "int \<Rightarrow> pstate \<Rightarrow> pstate \<times> exn option" where
  "sleep secs s =
     (if secs < 0
      then (emit [Call (Sleep secs)] s, Some (ValueError ''sleep length must be non-negative''))
      else (tick (real_of_int secs) (emit [Call (Sleep secs)] s), None))"

text \<open>\<open>if found_id\<close>, for a value that is \<open>None\<close> or a byte string.\<close>

definition found_truthy :: "string option \<Rightarrow> bool" where
  "found_truthy f = (case f of None \<Rightarrow> False | Some b \<Rightarrow> b \<noteq> [])"

text \<open>One turn of the \<open>while\<close> loop of \<open>run_for_account\<close>, entered after its test. The turn
  either leaves the loop, by \<open>break\<close> or by an exception of \<open>time.sleep\<close>, or goes back to
  the test with the current \<open>found_id\<close>.\<close>

datatype loop_ctl =
    Leave "pstate \<times> (exn + string option)"
  | Again "string option" pstate

definition sleep_then_again :: "AccountConfig \<Rightarrow> string option \<Rightarrow> pstate \<Rightarrow> loop_ctl" where
  "sleep_then_again acct found s =
     (case sleep (interval_seconds (poll acct)) s of
        (s', Some e) \<Rightarrow> Leave (s', Inl e)
      | (s', None) \<Rightarrow> Again found s')"

definition poll_body ::
  "acct_env \<Rightarrow> AccountConfig \<Rightarrow> string \<Rightarrow> string \<Rightarrow> nat \<Rightarrow> string option \<Rightarrow> pstate \<Rightarrow> loop_ctl" where
  "poll_body env acct token msg_id n found s =
     (case imap_search_for_token env n (mailbox (imap acct)) token msg_id of
        (evs, r) \<Rightarrow>
          (let s1 = tick (attempt_elapsed env n) (emit evs s)
           in case r of
                Inr f \<Rightarrow> if found_truthy f then Leave (s1, Inr f) else sleep_then_again acct f s1
              | Inl e \<Rightarrow>
                  sleep_then_again acct found
                    (emit [Log DEBUG ''%s: search transient error: %s'' [LStr (name acct), LExn e]] s1)))"

text \<open>The \<open>while time.time() < deadline\<close> loop; \<open>n\<close> counts the attempts made so far. The
  loop need not end (an interval of zero and a mailbox that answers at once), which is
  the value \<open>None\<close>.\<close>

partial_function (option) poll_loop ::
  "acct_env \<Rightarrow> AccountConfig \<Rightarrow> string \<Rightarrow> string \<Rightarrow> real \<Rightarrow> nat \<Rightarrow> string option \<Rightarrow> pstate
     \<Rightarrow> (pstate \<times> (exn + string option)) option" where
  "poll_loop env acct token msg_id deadline n found s =
     (if now s < deadline then
        (case poll_body env acct token msg_id n found s of
           Leave r \<Rightarrow> Some r
         | Again found' s' \<Rightarrow> poll_loop env acct token msg_id deadline (Suc n) found' s')
      else Some (s, Inr found))"

declare poll_loop.simps [code]

section \<open>The pipeline of one account\<close>

type_synonym outcome = "bool \<times> string \<times> real option"

text \<open>The first of the four required fields that is empty or absent, in the order of the
  check at the head of \<open>run_for_account\<close>.\<close>

definition missing_field :: "AccountConfig \<Rightarrow> string option" where
  "missing_field acct =
     (case filter (\<lambda>(field_name, present). \<not> present)
             [(''smtp.from'', truthy (from_addr (smtp acct))),
              (''smtp.to'', truthy (to_addr (smtp acct))),
              (''smtp.host'', smtp_host (smtp acct) \<noteq> []),
              (''imap.host'', imap_host (imap acct) \<noteq> [])] of
        [] \<Rightarrow> None
      | (field_name, present) # rest \<Rightarrow> Some field_name)"

text \<open>The cleanup of a found probe: a failure is logged as a warning.\<close>

definition cleanup :: "acct_env \<Rightarrow> AccountConfig \<Rightarrow> string \<Rightarrow> pstate \<Rightarrow> pstate" where
  "cleanup env acct found_id s =
     (case imap_delete env found_id of
        (evs, Some e) \<Rightarrow>
          emit (evs @ [Log WARNING ''%s: Could not delete message id %s: %s''
                         [LStr (name acct), LStr found_id, LExn e]]) s
      | (evs, None) \<Rightarrow> emit evs s)"

text \<open>What follows the loop inside the outer \<open>try\<close>, and the \<open>finally\<close> clause: the logout
  is made on every path, and whatever it raises is dropped.\<close>

definition after_poll ::
  "acct_env \<Rightarrow> AccountConfig \<Rightarrow> string \<Rightarrow> real \<Rightarrow> pstate \<times> (exn + string option)
     \<Rightarrow> pstate \<times> (exn + outcome)" where
  "after_poll env acct token smtp_ms sr =
     (case (case sr of
              (s, Inl e) \<Rightarrow> (s, Inl e)
            | (s, Inr found) \<Rightarrow>
                (case (if found_truthy found then found else None) of
                   None \<Rightarrow>
                     (emit [Log ERROR ''%s: Message not found within timeout (token=%s)''
                              [LStr (name acct), LStr token]] s,
                      Inr (False, ''IMAP timeout: message not found'', Some smtp_ms))
                 | Some found_id \<Rightarrow>
                     (emit [Log INFO ''%s: End-to-end success (token=%s)''
                              [LStr (name acct), LStr token]]
                        (if delete_on_success acct then cleanup env acct found_id s else s),
                      Inr (True, ''OK'', Some smtp_ms)))) of
        (s', r) \<Rightarrow> (emit [Call Logout] s', r))"

text \<open>\<open>run_for_account\<close>: an exception that leaves the function is \<open>Inl\<close>, the returned
  triple is \<open>Inr\<close>; \<open>None\<close> when the poll loop does not end.\<close>

definition run_for_account ::
  "acct_env \<Rightarrow> AccountConfig \<Rightarrow> pstate \<Rightarrow> (pstate \<times> (exn + outcome)) option" where
  "run_for_account env acct s =
     (case missing_field acct of
        Some field_name \<Rightarrow>
          Some (s, Inl (ValueError (''Account '' @ name acct @ '': missing required field '' @ field_name)))
      | None \<Rightarrow>
          (case build_message (uuid4_hex env) (formatdate env) (from_addr (smtp acct))
                  (to_addr (smtp acct)) ''Stalwart E2E Monitor'' of
             (token, raw, msg_id) \<Rightarrow>
               (case smtp_send env (smtp acct) raw s of
                  (s1, Inl e) \<Rightarrow>
                    if family e = SMTPException \<or> family e = SocketError
                    then Some (emit [Log ERROR ''%s: SMTP send failed: %s'' [LStr (name acct), LExn e]] s1,
                               Inr (False, ''SMTP failed: '' @ cls_name e @ '': '' @ detail e, None))
                    else Some (s1, Inl e)
                | (s1, Inr smtp_ms) \<Rightarrow>
                    (let s2 = emit [Log INFO ''%s: SMTP sent ok (%.0f ms) token=%s''
                                      [LStr (name acct), LNum smtp_ms, LStr token]] s1;
                         deadline = now s2 + real_of_int (timeout_seconds (poll acct))
                     in case imap_connect env (imap acct) s2 of
                          (s3, Some e) \<Rightarrow>
                            Some (emit [Log ERROR ''%s: IMAP connect/login failed: %s''
                                          [LStr (name acct), LExn e]] s3,
                                  Inr (False, ''IMAP connect failed: '' @ cls_name e @ '': '' @ detail e,
                                       Some smtp_ms))
                        | (s3, None) \<Rightarrow>
                            map_option (after_poll env acct token smtp_ms)
                              (poll_loop env acct token msg_id deadline 0 None s3)))))"

section \<open>Reporter\<close>

text \<open>\<open>int(x)\<close> of a float rounds towards zero.\<close>

definition trunc :: "real \<Rightarrow> int" where
  "trunc x = (if 0 \<le> x then \<lfloor>x\<rfloor> else \<lceil>x\<rceil>)"

definition push_kuma ::
  "acct_env \<Rightarrow> pyobj \<Rightarrow> string \<Rightarrow> string option \<Rightarrow> real option \<Rightarrow> pstate \<Rightarrow> pstate" where
  "push_kuma env url status msg ping_ms s =
     (let params = [(''status'', status)] @
                   (case msg of
                      None \<Rightarrow> []
                    | Some m \<Rightarrow> if m \<noteq> [] then [(''msg'', take 200 m)] else []) @
                   (case ping_ms of
                      None \<Rightarrow> []
                    | Some p \<Rightarrow> [(''ping'', str_of_int (trunc p))])
      in case http_reply env of
           None \<Rightarrow>
             emit [Call (HttpGet url params),
                   Log INFO ''Reported to Uptime Kuma: %s status=%s'' [LObj url, LStr status]] s
         | Some e \<Rightarrow>
             emit [Call (HttpGet url params),
                   Log ERROR ''Failed to push status to Uptime Kuma: %s'' [LExn e]] s)"

section \<open>Configuration loading\<close>

definition squote :: string where
  "squote = [CHR 0x27]"

text \<open>\<open>d.get(k, default)\<close> on a value known to be a dict.\<close>

definition dict_get :: "(string \<times> pyobj) list \<Rightarrow> string \<Rightarrow> pyobj \<Rightarrow> pyobj" where
  "dict_get kvs k dflt = (case map_of kvs k of Some v \<Rightarrow> v | None \<Rightarrow> dflt)"

text \<open>The methods \<open>get\<close> and \<open>items\<close> exist on dicts only.\<close>

fun as_dict :: "pyobj \<Rightarrow> exn + (string \<times> pyobj) list" where
  "as_dict (PDict kvs) = Inr kvs"
| "as_dict obj = Inl (AttributeError ''object has no attribute get'')"

text \<open>The loop of \<open>deep_merge\<close> over \<open>b.items()\<close>, with \<open>out\<close> as accumulator.\<close>

fun deep_merge_items ::
  "(string \<times> pyobj) list \<Rightarrow> (string \<times> pyobj) list \<Rightarrow> (string \<times> pyobj) list" where
  "deep_merge_items out [] = out"
| "deep_merge_items out ((k, v) # b) =
     deep_merge_items
       (dict_set out k
          (case v of
             PDict vb \<Rightarrow>
               (case dict_get out k PNone of
                  PDict va \<Rightarrow> PDict (deep_merge_items va vb)
                | other \<Rightarrow> v)
           | other \<Rightarrow> v))
       b"

definition deep_merge :: "pyobj \<Rightarrow> pyobj \<Rightarrow> exn + (string \<times> pyobj) list" where
  "deep_merge a b =
     bindE (py_dict a) (\<lambda>out.
     bindE (as_dict b) (\<lambda>items.
     Inr (deep_merge_items out items)))"

text \<open>The four settings objects, built in the order of the source; \<open>int\<close> is the only
  conversion that can raise.\<close>

definition parse_smtp :: "pyobj \<Rightarrow> exn + SMTPSettings" where
  "parse_smtp smtp_dict =
     bindE (as_dict smtp_dict) (\<lambda>d.
     bindE (py_int (dict_get d ''port'' (PInt 465))) (\<lambda>port.
     bindE (py_int (dict_get d ''timeout'' (PInt 30))) (\<lambda>tmo.
     Inr \<lparr>smtp_host = py_str (dict_get d ''host'' PNone),
          smtp_port = port,
          smtp_security = lower (py_str (dict_get d ''security'' (PStr ''ssl''))),
          smtp_username = dict_get d ''username'' PNone,
          smtp_password = dict_get d ''password'' PNone,
          from_addr = py_or (dict_get d ''from'' PNone) (dict_get d ''from_addr'' PNone),
          to_addr = py_or (dict_get d ''to'' PNone) (dict_get d ''to_addr'' PNone),
          smtp_timeout = tmo\<rparr>)))"

definition parse_imap :: "pyobj \<Rightarrow> exn + IMAPSettings" where
  "parse_imap imap_dict =
     bindE (as_dict imap_dict) (\<lambda>d.
     bindE (py_int (dict_get d ''port'' (PInt 993))) (\<lambda>port.
     bindE (py_int (dict_get d ''timeout'' (PInt 30))) (\<lambda>tmo.
     Inr \<lparr>imap_host = py_str (dict_get d ''host'' PNone),
          imap_port = port,
          imap_security = lower (py_str (dict_get d ''security'' (PStr ''ssl''))),
          imap_username = dict_get d ''username'' PNone,
          imap_password = dict_get d ''password'' PNone,
          mailbox = py_str (dict_get d ''mailbox'' (PStr ''INBOX'')),
          imap_timeout = tmo\<rparr>)))"

definition parse_poll :: "pyobj \<Rightarrow> exn + PollSettings" where
  "parse_poll poll_dict =
     bindE (as_dict poll_dict) (\<lambda>d.
     bindE (py_int (dict_get d ''timeout_seconds'' (dict_get d ''timeout'' (PInt 120)))) (\<lambda>t.
     bindE (py_int (dict_get d ''interval_seconds'' (dict_get d ''interval'' (PInt 5)))) (\<lambda>i.
     Inr \<lparr>timeout_seconds = t, interval_seconds = i\<rparr>)))"

definition parse_kuma :: "pyobj \<Rightarrow> exn + KumaSettings" where
  "parse_kuma kuma_dict =
     bindE (as_dict kuma_dict) (\<lambda>d.
     Inr \<lparr>push_url = py_or (dict_get d ''push_url'' PNone) (dict_get d ''url'' PNone)\<rparr>)"

text \<open>The check named "Basic validation" in \<open>parse_config\<close>: the label of the first of the
  two hosts that is the empty string.\<close>

definition missing_host :: "SMTPSettings \<Rightarrow> IMAPSettings \<Rightarrow> string option" where
  "missing_host s i =
     (case filter (\<lambda>(fld, label). fld = [])
             [(smtp_host s, ''smtp.host''), (imap_host i, ''imap.host'')] of
        [] \<Rightarrow> None
      | (fld, label) # rest \<Rightarrow> Some label)"

text \<open>The body of the loop of \<open>parse_config\<close> for one entry of \<open>accounts\<close> that was not
  filtered out.\<close>

definition parse_account :: "pyobj \<Rightarrow> pyobj \<Rightarrow> exn + AccountConfig" where
  "parse_account defaults raw =
     bindE (deep_merge defaults raw) (\<lambda>merged.
     bindE (parse_smtp (py_or (dict_get merged ''smtp'' PNone) (PDict []))) (\<lambda>smtp_s.
     bindE (parse_imap (py_or (dict_get merged ''imap'' PNone) (PDict []))) (\<lambda>imap_s.
     bindE (parse_poll (py_or (dict_get merged ''poll'' PNone) (PDict []))) (\<lambda>poll_s.
     bindE (parse_kuma (py_or (py_or (dict_get merged ''uptime_kuma'' PNone)
                                     (dict_get merged ''kuma'' PNone)) (PDict []))) (\<lambda>kuma_s.
     bindE (py_get raw ''name'' PNone) (\<lambda>raw_name.
       (let dos = truthy (dict_get merged ''delete_on_success''
                            (dict_get merged ''cleanup'' (PBool True)));
            nm = py_str (py_or (dict_get merged ''name'' PNone) raw_name)
        in if nm = []
           then Inl (ValueError (''Each account must have a '' @ squote @ ''name'' @ squote @ ''.''))
           else (case missing_host smtp_s imap_s of
                   Some label \<Rightarrow>
                     Inl (ValueError (''Missing required config value: '' @ label @
                                      '' for account '' @ nm))
                 | None \<Rightarrow>
                     Inr \<lparr>name = nm, smtp = smtp_s, imap = imap_s, poll = poll_s,
                          delete_on_success = dos, kuma = kuma_s\<rparr>))))))))"

text \<open>\<open>selected_accounts\<close> is \<open>None\<close> or the list of the \<open>--account\<close> options.\<close>

definition selection_given :: "string list option \<Rightarrow> bool" where
  "selection_given sel = (case sel of None \<Rightarrow> False | Some names \<Rightarrow> names \<noteq> [])"

definition filtered_out :: "string list option \<Rightarrow> pyobj \<Rightarrow> exn + bool" where
  "filtered_out sel raw =
     (case sel of
        None \<Rightarrow> Inr False
      | Some names \<Rightarrow>
          if names = [] then Inr False
          else bindE (py_get raw ''name'' PNone) (\<lambda>n. Inr (n \<notin> set (map PStr names))))"

fun parse_accounts :: "pyobj \<Rightarrow> string list option \<Rightarrow> pyobj list \<Rightarrow> exn + AccountConfig list" where
  "parse_accounts defaults sel [] = Inr []"
| "parse_accounts defaults sel (raw # raws) =
     bindE (filtered_out sel raw) (\<lambda>skip.
       if skip then parse_accounts defaults sel raws
       else bindE (parse_account defaults raw) (\<lambda>acct.
            bindE (parse_accounts defaults sel raws) (\<lambda>accts.
            Inr (acct # accts))))"

text \<open>\<open>parse_config\<close>. The first argument is what opening and loading the file gives: an
  exception or the loaded document. The result is the logging done and the list of
  accounts, or the exception raised.\<close>

definition parse_config ::
  "exn + pyobj \<Rightarrow> string list option \<Rightarrow> event list \<times> (exn + AccountConfig list)" where
  "parse_config loaded selected_accounts =
     (case bindE loaded (\<lambda>data0.
             (let data = py_or data0 (PDict [])
              in bindE (py_get data ''defaults'' (PDict [])) (\<lambda>defaults.
                 bindE (py_get data ''accounts'' (PList [])) (\<lambda>accounts.
                   if \<not> truthy accounts
                   then Inl (ValueError (''No accounts configured in YAML under '' @ squote @
                                         ''accounts'' @ squote @ ''.''))
                   else bindE (py_iter accounts) (\<lambda>raws.
                        bindE (parse_accounts defaults selected_accounts raws) (\<lambda>result.
                          if selection_given selected_accounts \<and> result = []
                          then Inl (ValueError ''No matching accounts after filtering by --account'')
                          else Inr (data, result))))))) of
        Inl e \<Rightarrow> ([], Inl e)
      | Inr (data, result) \<Rightarrow>
          ([Log DEBUG ''Loaded config: %s'' [LObj (redact_config data)]], Inr result))"

section \<open>The run over all accounts\<close>

text \<open>One turn of the loop of \<open>main\<close>, for the i-th account, which meets the
  surroundings \<open>envs i\<close>: the state after the turn and the verdict \<open>ok\<close>, or the exception
  that leaves \<open>run_for_account\<close> and with it the loop and \<open>main\<close>.\<close>

definition account_turn ::
  "(nat \<Rightarrow> acct_env) \<Rightarrow> nat \<Rightarrow> AccountConfig \<Rightarrow> pstate \<Rightarrow> (pstate \<times> (exn + bool)) option" where
  "account_turn envs i acct s =
     (case run_for_account (envs i) acct
             (emit [Log INFO ''Running monitor for account: %s'' [LStr (name acct)]] s) of
        None \<Rightarrow> None
      | Some (s1, Inl e) \<Rightarrow> Some (s1, Inl e)
      | Some (s1, Inr (ok, msg, ping_ms)) \<Rightarrow>
          (let s2 = (if truthy (push_url (kuma acct))
                     then push_kuma (envs i) (push_url (kuma acct))
                            (if ok then ''up'' else ''down'') (Some msg) ping_ms s1
                     else s1);
               s3 = (if \<not> ok
                     then emit [Log WARNING ''Account %s failed: %s'' [LStr (name acct), LStr msg]] s2
                     else s2)
           in Some (s3, Inr ok)))"

fun run_accounts ::
  "(nat \<Rightarrow> acct_env) \<Rightarrow> nat \<Rightarrow> AccountConfig list \<Rightarrow> bool \<Rightarrow> pstate \<Rightarrow> (pstate \<times> (exn + bool)) option" where
  "run_accounts envs i [] overall_ok s = Some (s, Inr overall_ok)"
| "run_accounts envs i (acct # rest) overall_ok s =
     (case account_turn envs i acct s of
        None \<Rightarrow> None
      | Some (s', Inl e) \<Rightarrow> Some (s', Inl e)
      | Some (s', Inr ok) \<Rightarrow> run_accounts envs (Suc i) rest (overall_ok \<and> ok) s')"

text \<open>\<open>main\<close>, after the parsing of the command line: the returned exit code, or the
  exception that leaves it.\<close>

definition main ::
  "exn + pyobj \<Rightarrow> string list option \<Rightarrow> (nat \<Rightarrow> acct_env) \<Rightarrow> pstate \<Rightarrow> (pstate \<times> (exn + int)) option" where
  "main loaded selected envs s =
     (case parse_config loaded selected of
        (evs, Inl e) \<Rightarrow> Some (emit (evs @ [Log ERROR ''Config error: %s'' [LExn e]]) s, Inr 2)
      | (evs, Inr accounts) \<Rightarrow>
          (case run_accounts envs 0 accounts True (emit evs s) of
             None \<Rightarrow> None
           | Some (s', Inl e) \<Rightarrow> Some (s', Inl e)
           | Some (s', Inr overall_ok) \<Rightarrow> Some (s', Inr (if overall_ok then 0 else 1))))"

text \<open>\<open>sys.exit(main())\<close>: the status of the process is the value \<open>main\<close> returns; an
  exception that nothing catches ends the interpreter with status 1.\<close>

definition exit_status :: "exn + int \<Rightarrow> int" where
  "exit_status r = (case r of Inr code \<Rightarrow> code | Inl e \<Rightarrow> 1)"

text \<open>The verdicts of the accounts of a run, in order, for the statement of the exit
  code: \<open>True\<close> where \<open>run_for_account\<close> returned success, \<open>False\<close> where it returned a
  failure, raised or did not return; no account is run after one that raised.\<close>

fun probe_verdicts :: "(nat \<Rightarrow> acct_env) \<Rightarrow> nat \<Rightarrow> AccountConfig list \<Rightarrow> pstate \<Rightarrow> bool list" where
  "probe_verdicts envs i [] s = []"
| "probe_verdicts envs i (acct # rest) s =
     (case account_turn envs i acct s of
        None \<Rightarrow> [False]
      | Some (s', Inl e) \<Rightarrow> [False]
      | Some (s', Inr ok) \<Rightarrow> ok # probe_verdicts envs (Suc i) rest s')"

section \<open>Notions used in the statements\<close>

text \<open>What one \<open>SEARCH\<close> answer amounts to: the identifiers it returns (none unless the
  answer is \<open>OK\<close> with a first data item), the exception it makes the attempt raise, and
  whether it returned no match.\<close>

definition hits :: "exn + (string \<times> string option list) \<Rightarrow> string list" where
  "hits r = (case r of
               Inr (typ, Some d # rest) \<Rightarrow> if typ = ''OK'' then py_split d else []
             | _ \<Rightarrow> [])"

definition search_error :: "exn + (string \<times> string option list) \<Rightarrow> exn option" where
  "search_error r = (case r of
                       Inl e \<Rightarrow> Some e
                     | Inr (typ, None # rest) \<Rightarrow>
                         if typ = ''OK''
                         then Some (AttributeError ''NoneType object has no attribute split'')
                         else None
                     | _ \<Rightarrow> None)"

definition no_match :: "exn + (string \<times> string option list) \<Rightarrow> bool" where
  "no_match r = (hits r = [] \<and> search_error r = None)"

text \<open>The calls that touch the mailbox, and the events a run adds to the trace.\<close>

fun is_mailbox_call :: "call \<Rightarrow> bool" where
  "is_mailbox_call (IMAP4_SSL h p) = True"
| "is_mailbox_call (IMAP4 h p) = True"
| "is_mailbox_call ImapStartTLS = True"
| "is_mailbox_call (ImapLogin u p) = True"
| "is_mailbox_call (Select m) = True"
| "is_mailbox_call (Search c) = True"
| "is_mailbox_call (Store i f v) = True"
| "is_mailbox_call Expunge = True"
| "is_mailbox_call Logout = True"
| "is_mailbox_call c = False"

fun is_mailbox_event :: "event \<Rightarrow> bool" where
  "is_mailbox_event (Call c) = is_mailbox_call c"
| "is_mailbox_event (Log l f a) = False"

definition new_events :: "pstate \<Rightarrow> pstate \<Rightarrow> event list" where
  "new_events s s' = drop (length (trace s)) (trace s')"

text \<open>The number of poll attempts in a trace: each attempt starts with one \<open>SELECT\<close>.\<close>

fun is_select :: "event \<Rightarrow> bool" where
  "is_select (Call (Select m)) = True"
| "is_select ev = False"

definition attempts_made :: "event list \<Rightarrow> nat" where
  "attempts_made evs = length (filter is_select evs)"

section \<open>Example surroundings and accounts\<close>

text \<open>Surroundings in which every call succeeds and the mailbox answers each criterion
  with three identifiers.\<close>

definition env_found :: acct_env where
  "env_found =
     \<lparr>uuid4_hex = ''0123456789abcdef0123456789abcdef'',
      formatdate = ''Wed, 04 Nov 2026 12:00:00 +0000'',
      smtp_reply = (\<lambda>k. None),
      smtp_elapsed = 1 / 4,
      imap_connect_reply = (\<lambda>k. None),
      imap_connect_elapsed = 0,
      select_reply = (\<lambda>n. Inr ''OK''),
      search_reply = (\<lambda>n crit. Inr (''OK'', [Some ''3 7 12''])),
      attempt_elapsed = (\<lambda>n. 0),
      delete_reply = (\<lambda>k. None),
      http_reply = None\<rparr>"

text \<open>A mailbox that never holds the probe.\<close>

definition env_never :: acct_env where
  "env_never = env_found\<lparr>search_reply := (\<lambda>n crit. Inr (''OK'', [Some '''']))\<rparr>"

definition example_account :: AccountConfig where
  "example_account =
     \<lparr>name = ''a'',
      smtp = \<lparr>smtp_host = ''mx'', smtp_port = 465, smtp_security = ''ssl'',
               smtp_username = PStr ''u'', smtp_password = PStr ''pw'',
               from_addr = PStr ''a@x'', to_addr = PStr ''b@x'', smtp_timeout = 30\<rparr>,
      imap = \<lparr>imap_host = ''imap'', imap_port = 993, imap_security = ''ssl'',
               imap_username = PNone, imap_password = PNone,
               mailbox = ''INBOX'', imap_timeout = 30\<rparr>,
      poll = \<lparr>timeout_seconds = 10, interval_seconds = 5\<rparr>,
      delete_on_success = True,
      kuma = \<lparr>push_url = PNone\<rparr>\<rparr>"

definition start_state :: pstate where
  "start_state = \<lparr>now = 0, trace = []\<rparr>"

text \<open>A submission server that rejects the login, a mailbox whose first \<open>SELECT\<close> breaks,
  and a mailbox that refuses to expunge.\<close>

definition auth_error :: exn where
  "auth_error = Exn SMTPException ''SMTPAuthenticationError'' ''(535, rejected)''"

definition env_auth_fail :: acct_env where
  "env_auth_fail = env_found\<lparr>smtp_reply := (\<lambda>k. if k = 2 then Some auth_error else None)\<rparr>"



definition expunge_error :: exn where
  "expunge_error = Exn OtherException ''error'' ''EXPUNGE command error: BAD''"

definition env_no_expunge :: acct_env where
  "env_no_expunge = env_found\<lparr>delete_reply := (\<lambda>k. if k = 1 then Some expunge_error else None)\<rparr>"

text \<open>A mailbox that never holds the probe and takes twenty seconds to answer.\<close>

definition env_slow :: acct_env where
  "env_slow = env_never\<lparr>attempt_elapsed := (\<lambda>n. 20)\<rparr>"

text \<open>Configurations: a complete one, whose account is \<open>example_account\<close>; one whose only
  account has no \<open>smtp.host\<close>; one whose first account has no sender address. And
  surroundings in which the name of the submission host does not resolve.\<close>

definition account_entry :: "string \<Rightarrow> (string \<times> pyobj) list \<Rightarrow> pyobj" where
  "account_entry nm smtp_items =
     PDict [(''name'', PStr nm),
            (''smtp'', PDict smtp_items),
            (''imap'', PDict [(''host'', PStr ''imap'')]),
            (''poll'', PDict [(''timeout'', PInt 10)])]"

definition config_ok :: pyobj where
  "config_ok =
     PDict [(''accounts'',
             PList [account_entry ''a''
                      [(''host'', PStr ''mx''), (''username'', PStr ''u''), (''password'', PStr ''pw''),
                       (''from'', PStr ''a@x''), (''to'', PStr ''b@x'')]])]"

definition config_no_host :: pyobj where
  "config_no_host =
     PDict [(''accounts'',
             PList [account_entry ''a''
                      [(''username'', PStr ''u''), (''password'', PStr ''pw''),
                       (''from'', PStr ''a@x''), (''to'', PStr ''b@x'')]])]"

definition config_no_from :: pyobj where
  "config_no_from =
     PDict [(''accounts'',
             PList [account_entry ''a''
                      [(''host'', PStr ''mx''), (''username'', PStr ''u''), (''password'', PStr ''pw''),
                       (''to'', PStr ''b@x'')],
                    account_entry ''b''
                      [(''host'', PStr ''mx''), (''username'', PStr ''u''), (''password'', PStr ''pw''),
                       (''from'', PStr ''a@x''), (''to'', PStr ''b@x'')]])]"

definition resolve_error :: exn where
  "resolve_error = Exn SocketError ''gaierror'' ''[Errno -2] Name or service not known''"

definition env_unresolved :: acct_env where
  "env_unresolved = env_found\<lparr>smtp_reply := (\<lambda>k. if k = 0 then Some resolve_error else None)\<rparr>"

definition io_error :: exn where
  "io_error = Exn SocketError ''FileNotFoundError'' ''[Errno 2] No such file or directory''"

text \<open>An account whose \<open>smtp.timeout\<close> is 0, which \<open>smtplib\<close> refuses with a \<open>ValueError\<close> when
  it opens the connection.\<close>

definition config_timeout_zero :: pyobj where
  "config_timeout_zero =
     PDict [(''accounts'',
             PList [account_entry ''a''
                      [(''host'', PStr ''mx''), (''username'', PStr ''u''), (''password'', PStr ''pw''),
                       (''from'', PStr ''a@x''), (''to'', PStr ''b@x''), (''timeout'', PInt 0)]])]"

definition nonblocking_error :: exn where
  "nonblocking_error = ValueError ''Non-blocking socket (timeout=0) is not supported''"

definition env_nonblocking :: acct_env where
  "env_nonblocking = env_found\<lparr>smtp_reply := (\<lambda>k. if k = 0 then Some nonblocking_error else None)\<rparr>"

section \<open>Properties\<close>

subsection \<open>Basic facts\<close>

lemma state_simps [simp]:
  "now (emit evs s) = now s" "trace (emit evs s) = trace s @ evs"
  "now (tick d s) = now s + d" "trace (tick d s) = trace s"
  by (simp_all add: emit_def tick_def)

lemma new_events_append [simp]: "trace s' = trace s @ evs \<Longrightarrow> new_events s s' = evs"
  by (simp add: new_events_def)

lemmas parse_defs = parse_config_def parse_account_def parse_smtp_def parse_imap_def parse_poll_def
  parse_kuma_def deep_merge_def missing_host_def filtered_out_def selection_given_def
  bindE_def py_or_def dict_get_def lower_def lower_char_def

subsection \<open>Redaction\<close>











subsection \<open>Probe factory\<close>


subsection \<open>Search strategies\<close>

lemma search_loop_first_match:
  "search_loop reply cs =
     (map (\<lambda>c. Call (Search c))
        (takeWhile (\<lambda>c. no_match (reply c)) cs @ take 1 (dropWhile (\<lambda>c. no_match (reply c)) cs)),
      (case dropWhile (\<lambda>c. no_match (reply c)) cs of
         [] \<Rightarrow> Inr None
       | c # rest \<Rightarrow>
           (case search_error (reply c) of
              Some e \<Rightarrow> Inl e
            | None \<Rightarrow> Inr (Some (last (hits (reply c)))))))"
proof (induction cs)
  case Nil
  show ?case by simp
next
  case (Cons c cs)
  show ?case
  proof (cases "reply c")
    case (Inl e)
    then show ?thesis by (simp add: no_match_def search_error_def hits_def)
  next
    case (Inr td)
    obtain ty data where td: "td = (ty, data)" by (cases td)
    show ?thesis
    proof (cases data)
      case Nil
      then show ?thesis using Inr td Cons.IH
        by (simp add: no_match_def search_error_def hits_def)
    next
      case (Cons d ds)
      show ?thesis
      proof (cases d)
        case None
        then show ?thesis using Inr td Cons Cons.IH
          by (simp add: no_match_def search_error_def hits_def)
      next
        case (Some b)
        then show ?thesis using Inr td Cons Cons.IH
          by (simp add: no_match_def search_error_def hits_def)
      qed
    qed
  qed
qed

lemma hit_not_no_match: "hits r \<noteq> [] \<Longrightarrow> \<not> no_match r \<and> search_error r = None"
  by (auto simp: no_match_def hits_def search_error_def split: sum.splits list.splits option.splits if_splits)

text \<open>
  Claim C1. In a poll attempt whose \<open>SELECT\<close> succeeds, the criteria are tried in the order
  Message-ID header, subject, full text; the criteria consulted are those that returned no
  match, followed by the first one that did otherwise, and no later one; when that one
  returned identifiers, the last of them is the result. In particular, identifiers
  returned for the Message-ID criterion win whatever the other criteria would return.
\<close>

theorem imap_search_for_token_order:
  assumes "select_reply env n = Inr ''OK''"
  shows "(let crits = criteria_list token msg_id;
              quiet = (\<lambda>c. no_match (search_reply env n c));
              rest = dropWhile quiet crits
          in crits = [''(HEADER Message-ID '' @ dquote @ msg_id @ dquote @ '')'',
                      ''(SUBJECT '' @ dquote @ token @ dquote @ '')'',
                      ''(TEXT '' @ dquote @ token @ dquote @ '')''] \<and>
             imap_search_for_token env n mbox token msg_id =
               (Call (Select mbox) # map (\<lambda>c. Call (Search c)) (takeWhile quiet crits @ take 1 rest),
                (case rest of
                   [] \<Rightarrow> Inr None
                 | c # later \<Rightarrow>
                     (case search_error (search_reply env n c) of
                        Some e \<Rightarrow> Inl e
                      | None \<Rightarrow> Inr (Some (last (hits (search_reply env n c))))))) \<and>
             (hits (search_reply env n (hd crits)) \<noteq> [] \<longrightarrow>
                imap_search_for_token env n mbox token msg_id =
                  ([Call (Select mbox), Call (Search (hd crits))],
                   Inr (Some (last (hits (search_reply env n (hd crits))))))))"
proof -
  have eq: "imap_search_for_token env n mbox token msg_id =
      (Call (Select mbox) # fst (search_loop (search_reply env n) (criteria_list token msg_id)),
       snd (search_loop (search_reply env n) (criteria_list token msg_id)))"
    using assms by (simp add: imap_search_for_token_def split: prod.splits)
  have hd: "hits (search_reply env n (hd (criteria_list token msg_id))) \<noteq> [] \<Longrightarrow>
      search_loop (search_reply env n) (criteria_list token msg_id) =
        ([Call (Search (hd (criteria_list token msg_id)))],
         Inr (Some (last (hits (search_reply env n (hd (criteria_list token msg_id)))))))"
    using hit_not_no_match[of "search_reply env n (hd (criteria_list token msg_id))"]
    by (simp add: search_loop_first_match criteria_list_def)
  show ?thesis
    unfolding Let_def
    apply (intro conjI impI)
      apply (simp add: criteria_list_def)
     apply (simp add: eq search_loop_first_match)
    apply (simp add: eq hd)
    done
qed

lemma w_split: "py_split ''3 7 12'' = [''3'', ''7'', ''12'']"
  by (simp add: py_split_def is_space_def)

theorem imap_search_for_token_order_witness:
  "select_reply env_found 0 = Inr ''OK'' \<and>
   imap_search_for_token env_found 0 ''INBOX'' ''t0'' ''<t0@e2e-monitor>'' =
     ([Call (Select ''INBOX''), Call (Search (hd (criteria_list ''t0'' ''<t0@e2e-monitor>'')))],
      Inr (Some ''12''))"
proof -
  have s: "select_reply env_found 0 = Inr ''OK''" by (simp add: env_found_def)
  have h: "hits (search_reply env_found 0 c) = [''3'', ''7'', ''12'']" for c
    by (simp add: env_found_def hits_def w_split)
  note t = imap_search_for_token_order[OF s, of "''t0''" "''<t0@e2e-monitor>''" "''INBOX''", unfolded Let_def]
  show ?thesis
    using conjunct2[OF conjunct2[OF t]] s by (simp add: h)
qed

subsection \<open>The pipeline of one account\<close>

lemma do_calls_events: "set (fst (do_calls reply k cs)) \<subseteq> Call ` set cs"
proof (induction cs arbitrary: k)
  case Nil
  show ?case by simp
next
  case (Cons c cs)
  show ?case
    using Cons.IH[of "Suc k"]
    by (cases "do_calls reply (Suc k) cs") (auto split: option.splits)
qed

lemma smtp_calls_no_mailbox: "c \<in> set (smtp_calls cfg raw) \<Longrightarrow> \<not> is_mailbox_call c"
  by (auto simp: smtp_calls_def Let_def split: if_splits)

lemma smtp_send_trace:
  assumes "smtp_send env cfg raw s = (s1, r)"
  shows "\<exists>evs. trace s1 = trace s @ evs \<and> list_all (\<lambda>ev. \<not> is_mailbox_event ev) evs"
proof -
  have nm: "list_all (\<lambda>ev. \<not> is_mailbox_event ev) (fst (do_calls (smtp_reply env) 1 (smtp_calls cfg raw)))"
    using do_calls_events[of "smtp_reply env" 1 "smtp_calls cfg raw"] smtp_calls_no_mailbox[of _ cfg raw]
    by (auto simp: list_all_iff)
  show ?thesis
    using assms nm
    by (auto simp: smtp_send_def Let_def split: option.splits prod.splits if_splits)
qed

text \<open>
  When the send raises an exception of the classes \<open>SMTPException\<close> or \<open>socket.error\<close>,
  \<open>run_for_account\<close> returns at once the outcome
  \<open>(False, "SMTP failed: <class>: <detail>", None)\<close>, and the run of the account has made no
  call to the mailbox: no connection, no poll attempt.
\<close>

lemma smtp_error_outcome:
  assumes "missing_field acct = None"
    and "build_message (uuid4_hex env) (formatdate env) (from_addr (smtp acct))
           (to_addr (smtp acct)) ''Stalwart E2E Monitor'' = (token, raw, msg_id)"
    and "smtp_send env (smtp acct) raw s = (s1, Inl e)"
    and "family e = SMTPException \<or> family e = SocketError"
  shows "run_for_account env acct s =
           Some (emit [Log ERROR ''%s: SMTP send failed: %s'' [LStr (name acct), LExn e]] s1,
                 Inr (False, ''SMTP failed: '' @ cls_name e @ '': '' @ detail e, None)) \<and>
         list_all (\<lambda>ev. \<not> is_mailbox_event ev)
           (new_events s (emit [Log ERROR ''%s: SMTP send failed: %s'' [LStr (name acct), LExn e]] s1))"
proof -
  obtain evs where evs: "trace s1 = trace s @ evs" "list_all (\<lambda>ev. \<not> is_mailbox_event ev) evs"
    using smtp_send_trace[OF assms(3)] by blast
  have "run_for_account env acct s =
           Some (emit [Log ERROR ''%s: SMTP send failed: %s'' [LStr (name acct), LExn e]] s1,
                 Inr (False, ''SMTP failed: '' @ cls_name e @ '': '' @ detail e, None))"
    using assms by (simp add: run_for_account_def)
  moreover have "new_events s (emit [Log ERROR ''%s: SMTP send failed: %s'' [LStr (name acct), LExn e]] s1)
      = evs @ [Log ERROR ''%s: SMTP send failed: %s'' [LStr (name acct), LExn e]]"
    by (rule new_events_append) (simp add: evs)
  ultimately show ?thesis using evs(2) by simp
qed

text \<open>
  Claim C5. When the probe was found and \<open>delete_on_success\<close> is set, a failure of the
  cleanup, in the store of the flag or in the expunge, is logged as a warning and the
  outcome of the account is still \<open>(True, "OK", smtp_ms)\<close>.
\<close>

theorem cleanup_failure_keeps_success:
  assumes "missing_field acct = None"
    and "build_message (uuid4_hex env) (formatdate env) (from_addr (smtp acct))
           (to_addr (smtp acct)) ''Stalwart E2E Monitor'' = (token, raw, msg_id)"
    and "smtp_send env (smtp acct) raw s = (s1, Inr smtp_ms)"
    and "imap_connect env (imap acct)
           (emit [Log INFO ''%s: SMTP sent ok (%.0f ms) token=%s''
                    [LStr (name acct), LNum smtp_ms, LStr token]] s1) = (s3, None)"
    and "poll_loop env acct token msg_id (now s1 + real_of_int (timeout_seconds (poll acct)))
           0 None s3 = Some (s4, Inr (Some found_id))"
    and "found_id \<noteq> []"
    and "delete_on_success acct"
    and "imap_delete env found_id = (evs, Some e)"
  shows "run_for_account env acct s =
           Some (emit [Call Logout]
                   (emit [Log INFO ''%s: End-to-end success (token=%s)'' [LStr (name acct), LStr token]]
                      (emit (evs @ [Log WARNING ''%s: Could not delete message id %s: %s''
                                      [LStr (name acct), LStr found_id, LExn e]]) s4)),
                 Inr (True, ''OK'', Some smtp_ms))"
  using assms
  by (simp add: run_for_account_def Let_def after_poll_def cleanup_def found_truthy_def)



lemma py_split_example: "py_split ''3 7 12'' = [''3'', ''7'', ''12'']"
  by (simp add: py_split_def is_space_def)

lemma example_fields: "missing_field example_account = None"
  by (simp add: missing_field_def example_account_def)

lemma smtp_error_outcome_example:
  "missing_field example_account = None \<and>
   (family auth_error = SMTPException \<or> family auth_error = SocketError) \<and>
   map_option snd (run_for_account env_auth_fail example_account start_state) =
     Some (Inr (False, ''SMTP failed: SMTPAuthenticationError: (535, rejected)'', None)) \<and>
   list_all (\<lambda>ev. \<not> is_mailbox_event ev)
     (trace (fst (the (run_for_account env_auth_fail example_account start_state))))"
proof -
  obtain token raw msg_id where bm:
    "build_message (uuid4_hex env_auth_fail) (formatdate env_auth_fail)
       (from_addr (smtp example_account)) (to_addr (smtp example_account))
       ''Stalwart E2E Monitor'' = (token, raw, msg_id)"
    by (cases "build_message (uuid4_hex env_auth_fail) (formatdate env_auth_fail)
       (from_addr (smtp example_account)) (to_addr (smtp example_account))
       ''Stalwart E2E Monitor''") auto
  have ss: "smtp_send env_auth_fail (smtp example_account) raw start_state =
      (fst (smtp_send env_auth_fail (smtp example_account) raw start_state), Inl auth_error)"
    by (simp add: smtp_send_def smtp_calls_def has_credentials_def env_auth_fail_def
        env_found_def example_account_def Let_def)
  have fam: "family auth_error = SMTPException \<or> family auth_error = SocketError"
    by (simp add: auth_error_def)
  note t = smtp_error_outcome[OF example_fields bm ss fam]
  have tr: "trace start_state = []" by (simp add: start_state_def)
  show ?thesis
    using t example_fields fam
    by (simp add: auth_error_def example_account_def new_events_def tr)
qed

lemma example_search:
  "select_reply env n = Inr ''OK'' \<Longrightarrow>
   search_reply env n = (\<lambda>crit. Inr (''OK'', [Some ''3 7 12''])) \<Longrightarrow>
   imap_search_for_token env n mbox token msg_id =
     ([Call (Select mbox), Call (Search (hd (criteria_list token msg_id)))], Inr (Some ''12''))"
  by (simp add: imap_search_for_token_def criteria_list_def py_split_example)

lemma example_found:
  assumes "select_reply env n = Inr ''OK''"
    and "search_reply env n = (\<lambda>crit. Inr (''OK'', [Some ''3 7 12'']))"
    and "now s < deadline"
  shows "poll_loop env acct token msg_id deadline n found s =
           Some (tick (attempt_elapsed env n)
                   (emit [Call (Select (mailbox (imap acct))),
                          Call (Search (hd (criteria_list token msg_id)))] s),
                 Inr (Some ''12''))"
  using assms(3) example_search[OF assms(1,2)]
  by (subst poll_loop.simps) (simp add: poll_body_def found_truthy_def)

theorem cleanup_failure_keeps_success_witness:
  "missing_field example_account = None \<and>
   delete_on_success example_account \<and>
   imap_delete env_no_expunge ''12'' =
     ([Call (Store ''12'' ''+FLAGS'' (''('' @ [CHR 0x5C] @ ''Deleted)'')), Call Expunge],
      Some expunge_error) \<and>
   map_option snd (run_for_account env_no_expunge example_account start_state) =
     Some (Inr (True, ''OK'', Some 250))"
proof -
  obtain token raw msg_id where bm:
    "build_message (uuid4_hex env_no_expunge) (formatdate env_no_expunge)
       (from_addr (smtp example_account)) (to_addr (smtp example_account))
       ''Stalwart E2E Monitor'' = (token, raw, msg_id)"
    by (cases "build_message (uuid4_hex env_no_expunge) (formatdate env_no_expunge)
       (from_addr (smtp example_account)) (to_addr (smtp example_account))
       ''Stalwart E2E Monitor''") auto
  define s1 where "s1 = fst (smtp_send env_no_expunge (smtp example_account) raw start_state)"
  have ss: "smtp_send env_no_expunge (smtp example_account) raw start_state = (s1, Inr 250)"
    unfolding s1_def
    by (simp add: smtp_send_def smtp_calls_def has_credentials_def env_no_expunge_def
        env_found_def example_account_def Let_def)
  have now1: "now s1 = 1 / 4"
    unfolding s1_def
    by (simp add: smtp_send_def smtp_calls_def has_credentials_def env_no_expunge_def
        env_found_def example_account_def Let_def start_state_def)
  define s3 where "s3 = fst (imap_connect env_no_expunge (imap example_account)
           (emit [Log INFO ''%s: SMTP sent ok (%.0f ms) token=%s''
                    [LStr (name example_account), LNum 250, LStr token]] s1))"
  have ic: "imap_connect env_no_expunge (imap example_account)
           (emit [Log INFO ''%s: SMTP sent ok (%.0f ms) token=%s''
                    [LStr (name example_account), LNum 250, LStr token]] s1) = (s3, None)"
    unfolding s3_def
    by (simp add: imap_connect_def imap_calls_def has_credentials_def env_no_expunge_def
        env_found_def example_account_def)
  have now3: "now s3 = 1 / 4"
    unfolding s3_def using now1
    by (simp add: imap_connect_def imap_calls_def has_credentials_def env_no_expunge_def
        env_found_def example_account_def)
  have lt: "now s3 < now s1 + real_of_int (timeout_seconds (poll example_account))"
    by (simp add: now1 now3 example_account_def)
  have sel: "select_reply env_no_expunge 0 = Inr ''OK''"
    and sea: "search_reply env_no_expunge 0 = (\<lambda>crit. Inr (''OK'', [Some ''3 7 12'']))"
    by (simp_all add: env_no_expunge_def env_found_def)
  note pl = example_found[OF sel sea lt, of example_account token msg_id None]
  have ne: "''12'' \<noteq> ([] :: string)" by simp
  have dos: "delete_on_success example_account" by (simp add: example_account_def)
  have del: "imap_delete env_no_expunge ''12'' =
     ([Call (Store ''12'' ''+FLAGS'' (''('' @ [CHR 0x5C] @ ''Deleted)'')), Call Expunge],
      Some expunge_error)"
    by (simp add: imap_delete_def env_no_expunge_def env_found_def)
  note t = cleanup_failure_keeps_success[OF example_fields bm ss ic pl ne dos del]
  show ?thesis using t example_fields dos del by simp
qed


subsection \<open>The poll deadline\<close>

lemma attempts_made_append [simp]:
  "attempts_made (a @ b) = attempts_made a + attempts_made b"
  by (simp add: attempts_made_def)

lemma attempts_made_simps [simp]:
  "attempts_made [] = 0"
  "attempts_made (Call (Select m) # evs) = Suc (attempts_made evs)"
  "attempts_made (Log l f a # evs) = attempts_made evs"
  "attempts_made (Call (Sleep i) # evs) = attempts_made evs"
  "attempts_made (Call Logout # evs) = attempts_made evs"
  by (simp_all add: attempts_made_def)

lemma search_loop_no_select: "attempts_made (fst (search_loop reply cs)) = 0"
  by (simp add: search_loop_first_match attempts_made_def filter_empty_conv)

lemma imap_search_one_select:
  "attempts_made (fst (imap_search_for_token env n mbox token msg_id)) = 1"
proof -
  obtain evs r where sl: "search_loop (search_reply env n) (criteria_list token msg_id) = (evs, r)"
    by (cases "search_loop (search_reply env n) (criteria_list token msg_id)")
  then have "attempts_made evs = 0"
    using search_loop_no_select[of "search_reply env n" "criteria_list token msg_id"] by simp
  then show ?thesis
    using sl by (simp add: imap_search_for_token_def split: sum.splits)
qed

lemma poll_body_no_match:
  assumes "\<forall>b. snd (imap_search_for_token env n (mailbox (imap acct)) token msg_id) \<noteq> Inr (Some b)"
    and "0 \<le> interval_seconds (poll acct)"
    and "\<not> found_truthy found"
  shows "\<exists>found' s1. poll_body env acct token msg_id n found s = Again found' s1 \<and>
           \<not> found_truthy found' \<and>
           now s1 = now s + attempt_elapsed env n + real_of_int (interval_seconds (poll acct)) \<and>
           attempts_made (trace s1) = Suc (attempts_made (trace s))"
proof -
  obtain evs r where sr: "imap_search_for_token env n (mailbox (imap acct)) token msg_id = (evs, r)"
    by (cases "imap_search_for_token env n (mailbox (imap acct)) token msg_id")
  have one: "attempts_made evs = 1"
    using imap_search_one_select[of env n "mailbox (imap acct)" token msg_id] sr by simp
  show ?thesis
  proof (cases r)
    case (Inl e)
    then show ?thesis using sr one assms(2,3)
      by (simp add: poll_body_def sleep_then_again_def sleep_def Let_def)
  next
    case (Inr f)
    with assms(1) sr have "f = None" by (cases f) auto
    then show ?thesis using sr one assms(2) Inr
      by (simp add: poll_body_def sleep_then_again_def sleep_def Let_def found_truthy_def)
  qed
qed

lemma ceiling_step:
  fixes x :: real
  assumes "0 < x"
  shows "nat \<lceil>x\<rceil> = Suc (nat \<lceil>x - 1\<rceil>)"
proof -
  have "1 \<le> \<lceil>x\<rceil>" using assms by linarith
  then have "nat \<lceil>x\<rceil> = Suc (nat (\<lceil>x\<rceil> - 1))" by linarith
  moreover have "\<lceil>x - 1\<rceil> = \<lceil>x\<rceil> - 1" by linarith
  ultimately show ?thesis by simp
qed

lemma poll_loop_no_match:
  assumes I: "0 < interval_seconds (poll acct)"
    and nm: "\<forall>n b. snd (imap_search_for_token env n (mailbox (imap acct)) token msg_id) \<noteq> Inr (Some b)"
    and dur: "\<forall>n. 0 \<le> attempt_elapsed env n \<and> attempt_elapsed env n \<le> D"
  shows "\<not> found_truthy found \<Longrightarrow>
         deadline - now s \<le> real k * real_of_int (interval_seconds (poll acct)) \<Longrightarrow>
         \<exists>sf found'.
           poll_loop env acct token msg_id deadline n found s = Some (sf, Inr found') \<and>
           \<not> found_truthy found' \<and>
           deadline \<le> now sf \<and>
           (now s < deadline \<longrightarrow> now sf < deadline + real_of_int (interval_seconds (poll acct)) + D) \<and>
           (\<not> now s < deadline \<longrightarrow> sf = s) \<and>
           attempts_made (trace sf) \<le> attempts_made (trace s) + k \<and>
           ((\<forall>n. attempt_elapsed env n = 0) \<longrightarrow>
              attempts_made (trace sf) =
                attempts_made (trace s) +
                nat \<lceil>(deadline - now s) / real_of_int (interval_seconds (poll acct))\<rceil>)"
proof (induction k arbitrary: n found s)
  case 0
  then have ge: "\<not> now s < deadline" by simp
  then have "poll_loop env acct token msg_id deadline n found s = Some (s, Inr found)"
    by (subst poll_loop.simps) simp
  moreover have "nat \<lceil>(deadline - now s) / real_of_int (interval_seconds (poll acct))\<rceil> = 0"
    using ge I by (simp add: divide_le_0_iff)
  ultimately show ?case using 0 ge by simp
next
  case (Suc k)
  let ?I = "real_of_int (interval_seconds (poll acct))"
  have Ipos: "0 < ?I" using I by simp
  show ?case
  proof (cases "now s < deadline")
    case False
    then have "poll_loop env acct token msg_id deadline n found s = Some (s, Inr found)"
      by (subst poll_loop.simps) simp
    moreover have "nat \<lceil>(deadline - now s) / ?I\<rceil> = 0"
      using False Ipos by (simp add: divide_le_0_iff)
    ultimately show ?thesis using Suc.prems False by simp
  next
    case True
    obtain found1 s1 where body: "poll_body env acct token msg_id n found s = Again found1 s1"
      and nf1: "\<not> found_truthy found1"
      and now1: "now s1 = now s + attempt_elapsed env n + ?I"
      and att1: "attempts_made (trace s1) = Suc (attempts_made (trace s))"
      using poll_body_no_match[of env n acct token msg_id found s] nm I Suc.prems(1)
      by auto
    have step: "poll_loop env acct token msg_id deadline n found s =
                poll_loop env acct token msg_id deadline (Suc n) found1 s1"
      using True body by (subst poll_loop.simps) simp
    have d0: "0 \<le> attempt_elapsed env n" and dD: "attempt_elapsed env n \<le> D"
      using dur by auto
    have bound: "deadline - now s1 \<le> real k * ?I"
    proof -
      have "deadline - now s1 \<le> deadline - now s - ?I" using now1 d0 by simp
      also have "\<dots> \<le> real (Suc k) * ?I - ?I" using Suc.prems(2) by simp
      also have "\<dots> = real k * ?I" by (simp add: algebra_simps)
      finally show ?thesis .
    qed
    obtain sf found' where
      res: "poll_loop env acct token msg_id deadline (Suc n) found1 s1 = Some (sf, Inr found')"
      and nf: "\<not> found_truthy found'"
      and ge: "deadline \<le> now sf"
      and lt: "now s1 < deadline \<longrightarrow> now sf < deadline + ?I + D"
      and same: "\<not> now s1 < deadline \<longrightarrow> sf = s1"
      and le: "attempts_made (trace sf) \<le> attempts_made (trace s1) + k"
      and ex: "(\<forall>n. attempt_elapsed env n = 0) \<longrightarrow>
                attempts_made (trace sf) = attempts_made (trace s1) + nat \<lceil>(deadline - now s1) / ?I\<rceil>"
      using Suc.IH[OF nf1 bound, of "Suc n"] by blast
    have upper: "now sf < deadline + ?I + D"
    proof (cases "now s1 < deadline")
      case True
      then show ?thesis using lt by simp
    next
      case False
      then have "sf = s1" using same by simp
      then show ?thesis using now1 \<open>now s < deadline\<close> dD by simp
    qed
    have exact: "attempts_made (trace sf) = attempts_made (trace s) + nat \<lceil>(deadline - now s) / ?I\<rceil>"
      if z: "\<forall>n. attempt_elapsed env n = 0"
    proof -
      have "now s1 = now s + ?I" using now1 z by simp
      then have "(deadline - now s1) / ?I = (deadline - now s) / ?I - 1"
        using Ipos by (simp add: field_simps)
      moreover have "0 < (deadline - now s) / ?I" using True Ipos by simp
      ultimately have "nat \<lceil>(deadline - now s) / ?I\<rceil> = Suc (nat \<lceil>(deadline - now s1) / ?I\<rceil>)"
        using ceiling_step[of "(deadline - now s) / ?I"] by simp
      then show ?thesis using ex z att1 by simp
    qed
    show ?thesis
      using step res nf ge upper True le att1 exact by simp
  qed
qed

lemma do_calls_no_select:
  "\<forall>c \<in> set cs. \<not> is_select (Call c) \<Longrightarrow> attempts_made (fst (do_calls reply k cs)) = 0"
proof (induction cs arbitrary: k)
  case Nil
  show ?case by simp
next
  case (Cons c cs)
  then have "attempts_made (fst (do_calls reply (Suc k) cs)) = 0" by simp
  then show ?case using Cons.prems
    by (cases "do_calls reply (Suc k) cs") (auto simp: attempts_made_def split: option.splits)
qed

lemma smtp_calls_no_select: "\<forall>c \<in> set (smtp_calls cfg raw). \<not> is_select (Call c)"
  by (auto simp: smtp_calls_def Let_def split: if_splits)

lemma imap_calls_no_select: "\<forall>c \<in> set (imap_calls cfg). \<not> is_select (Call c)"
  by (auto simp: imap_calls_def split: if_splits)

lemma smtp_send_effect:
  assumes "smtp_send env cfg raw s = (s1, r)"
  shows "now s1 = now s + smtp_elapsed env \<and> attempts_made (trace s1) = attempts_made (trace s)"
proof -
  obtain evs x where dc: "do_calls (smtp_reply env) 1 (smtp_calls cfg raw) = (evs, x)"
    by (cases "do_calls (smtp_reply env) 1 (smtp_calls cfg raw)")
  have "attempts_made evs = 0"
    using do_calls_no_select[OF smtp_calls_no_select, of "smtp_reply env" 1 cfg raw] dc by simp
  then show ?thesis
    using assms dc
    by (auto simp: smtp_send_def Let_def emit_def tick_def attempts_made_def
        split: option.splits if_splits)
qed

lemma imap_connect_effect:
  "now (fst (imap_connect env cfg s)) = now s + imap_connect_elapsed env \<and>
   attempts_made (trace (fst (imap_connect env cfg s))) = attempts_made (trace s) \<and>
   snd (imap_connect env cfg s) = snd (do_calls (imap_connect_reply env) 0 (imap_calls cfg))"
proof -
  obtain evs x where dc: "do_calls (imap_connect_reply env) 0 (imap_calls cfg) = (evs, x)"
    by (cases "do_calls (imap_connect_reply env) 0 (imap_calls cfg)")
  have "attempts_made evs = 0"
    using do_calls_no_select[OF imap_calls_no_select, of "imap_connect_reply env" 0 cfg] dc by simp
  then show ?thesis
    using dc by (simp add: imap_connect_def emit_def tick_def attempts_made_def)
qed

text \<open>
  Claim C2, as amended. Let the poll timeout be \<open>T \<ge> 0\<close> and the interval \<open>I > 0\<close>, let no
  poll attempt ever return a match, and let the mailbox connect and every poll attempt take
  between 0 and \<open>D\<close> seconds. Then \<open>run_for_account\<close> returns
  \<open>(False, "IMAP timeout: message not found", smtp_ms)\<close>, no earlier than \<open>T\<close> and earlier than
  \<open>T + I + D\<close> seconds after the moment the deadline was set, after at most \<open>\<lceil>T / I\<rceil>\<close> poll
  attempts, and after exactly \<open>\<lceil>T / I\<rceil>\<close> attempts (two for \<open>T = 10\<close>, \<open>I = 5\<close>) when the connect
  and the attempts take no time.
\<close>

theorem poll_timeout_window:
  assumes mf: "missing_field acct = None"
    and bm: "build_message (uuid4_hex env) (formatdate env) (from_addr (smtp acct))
           (to_addr (smtp acct)) ''Stalwart E2E Monitor'' = (token, raw, msg_id)"
    and ss: "smtp_send env (smtp acct) raw s = (s1, Inr smtp_ms)"
    and ic: "snd (imap_connect env (imap acct) s1) = None"
    and T: "0 \<le> timeout_seconds (poll acct)"
    and I: "0 < interval_seconds (poll acct)"
    and nm: "\<forall>n b. snd (imap_search_for_token env n (mailbox (imap acct)) token msg_id) \<noteq> Inr (Some b)"
    and cd: "0 \<le> imap_connect_elapsed env \<and> imap_connect_elapsed env \<le> D"
    and dur: "\<forall>n. 0 \<le> attempt_elapsed env n \<and> attempt_elapsed env n \<le> D"
  shows "\<exists>sf. run_for_account env acct s =
                Some (sf, Inr (False, ''IMAP timeout: message not found'', Some smtp_ms)) \<and>
              now s1 + real_of_int (timeout_seconds (poll acct)) \<le> now sf \<and>
              now sf < now s1 + real_of_int (timeout_seconds (poll acct)) +
                       real_of_int (interval_seconds (poll acct)) + D \<and>
              attempts_made (trace sf) \<le>
                attempts_made (trace s) +
                nat \<lceil>real_of_int (timeout_seconds (poll acct)) / real_of_int (interval_seconds (poll acct))\<rceil> \<and>
              (imap_connect_elapsed env = 0 \<and> (\<forall>n. attempt_elapsed env n = 0) \<longrightarrow>
                 attempts_made (trace sf) =
                   attempts_made (trace s) +
                   nat \<lceil>real_of_int (timeout_seconds (poll acct)) / real_of_int (interval_seconds (poll acct))\<rceil>)"
proof -
  let ?T = "real_of_int (timeout_seconds (poll acct))"
  let ?I = "real_of_int (interval_seconds (poll acct))"
  let ?s2 = "emit [Log INFO ''%s: SMTP sent ok (%.0f ms) token=%s''
                     [LStr (name acct), LNum smtp_ms, LStr token]] s1"
  let ?dl = "now s1 + ?T"
  define s3 where "s3 = fst (imap_connect env (imap acct) ?s2)"
  have Ipos: "0 < ?I" using I by simp
  have Tnn: "0 \<le> ?T" using T by simp
  have conn: "imap_connect env (imap acct) ?s2 = (s3, None)"
    using ic imap_connect_effect[of env "imap acct" ?s2] imap_connect_effect[of env "imap acct" s1]
    by (simp add: s3_def prod_eq_iff)
  have now3: "now s3 = now s1 + imap_connect_elapsed env"
    using imap_connect_effect[of env "imap acct" ?s2] by (simp add: s3_def emit_def)
  have att3: "attempts_made (trace s3) = attempts_made (trace s)"
    using imap_connect_effect[of env "imap acct" ?s2] smtp_send_effect[OF ss]
    by (simp add: s3_def emit_def)
  define k where "k = nat \<lceil>(?dl - now s3) / ?I\<rceil>"
  have kb: "?dl - now s3 \<le> real k * ?I"
  proof -
    have "(?dl - now s3) / ?I \<le> real_of_int \<lceil>(?dl - now s3) / ?I\<rceil>" by linarith
    also have "\<dots> \<le> real k" unfolding k_def by linarith
    finally show ?thesis using Ipos by (simp add: field_simps)
  qed
  have kT: "k \<le> nat \<lceil>?T / ?I\<rceil>"
  proof -
    have "(?dl - now s3) / ?I \<le> ?T / ?I"
      using now3 cd Ipos by (simp add: divide_right_mono)
    then show ?thesis unfolding k_def by (intro nat_mono ceiling_mono)
  qed
  have nf: "\<not> found_truthy None" by (simp add: found_truthy_def)
  obtain sf' found' where
    res: "poll_loop env acct token msg_id ?dl 0 None s3 = Some (sf', Inr found')"
    and nf': "\<not> found_truthy found'"
    and ge: "?dl \<le> now sf'"
    and lt: "now s3 < ?dl \<longrightarrow> now sf' < ?dl + ?I + D"
    and same: "\<not> now s3 < ?dl \<longrightarrow> sf' = s3"
    and le: "attempts_made (trace sf') \<le> attempts_made (trace s3) + k"
    and ex: "(\<forall>n. attempt_elapsed env n = 0) \<longrightarrow>
                attempts_made (trace sf') = attempts_made (trace s3) + nat \<lceil>(?dl - now s3) / ?I\<rceil>"
    using poll_loop_no_match[OF I nm dur nf kb, of 0] by blast
  let ?sf = "emit [Call Logout]
               (emit [Log ERROR ''%s: Message not found within timeout (token=%s)''
                        [LStr (name acct), LStr token]] sf')"
  have run: "run_for_account env acct s =
               Some (?sf, Inr (False, ''IMAP timeout: message not found'', Some smtp_ms))"
    using mf bm ss conn res nf'
    by (simp add: run_for_account_def Let_def after_poll_def emit_def)
  have upper: "now sf' < ?dl + ?I + D"
  proof (cases "now s3 < ?dl")
    case True
    then show ?thesis using lt by simp
  next
    case False
    then have "sf' = s3" using same by simp
    then show ?thesis using now3 cd Tnn Ipos by simp
  qed
  have exact: "attempts_made (trace sf') = attempts_made (trace s) + nat \<lceil>?T / ?I\<rceil>"
    if "imap_connect_elapsed env = 0 \<and> (\<forall>n. attempt_elapsed env n = 0)"
    using that ex att3 now3 by simp
  have "now ?sf = now sf'" "attempts_made (trace ?sf) = attempts_made (trace sf')"
    by (simp_all add: emit_def attempts_made_def)
  then show ?thesis
    using run ge upper le kT att3 exact by (intro exI[of _ ?sf]) auto
qed

lemma attempts_made_searches [simp]: "attempts_made (map (\<lambda>c. Call (Search c)) cs) = 0"
  by (simp add: attempts_made_def filter_empty_conv)

lemma py_split_empty: "py_split [] = []"
  by (simp add: py_split_def)

lemma never_search:
  "select_reply env n = Inr ''OK'' \<Longrightarrow>
   search_reply env n = (\<lambda>crit. Inr (''OK'', [Some ''''])) \<Longrightarrow>
   imap_search_for_token env n mbox token msg_id =
     (Call (Select mbox) # map (\<lambda>c. Call (Search c)) (criteria_list token msg_id), Inr None)"
  by (simp add: imap_search_for_token_def criteria_list_def py_split_empty)

lemma example_sent:
  assumes "smtp_reply env = (\<lambda>k. None)"
  shows "snd (smtp_send env (smtp example_account) raw s) = Inr (smtp_elapsed env * 1000)"
  using assms
  by (simp add: smtp_send_def smtp_calls_def has_credentials_def example_account_def Let_def)

lemma example_connected:
  assumes "imap_connect_reply env = (\<lambda>k. None)"
  shows "snd (imap_connect env (imap example_account) s) = None"
  using assms
  by (simp add: imap_connect_def imap_calls_def has_credentials_def example_account_def)

theorem poll_timeout_window_witness:
  "missing_field example_account = None \<and>
   0 \<le> timeout_seconds (poll example_account) \<and>
   0 < interval_seconds (poll example_account) \<and>
   (\<exists>sf. run_for_account env_never example_account start_state =
            Some (sf, Inr (False, ''IMAP timeout: message not found'', Some 250)) \<and>
          1 / 4 + 10 \<le> now sf \<and> now sf < 1 / 4 + 10 + 5 \<and>
          attempts_made (trace sf) = 2)"
proof -
  obtain token raw msg_id where bm:
    "build_message (uuid4_hex env_never) (formatdate env_never)
       (from_addr (smtp example_account)) (to_addr (smtp example_account))
       ''Stalwart E2E Monitor'' = (token, raw, msg_id)"
    by (cases "build_message (uuid4_hex env_never) (formatdate env_never)
       (from_addr (smtp example_account)) (to_addr (smtp example_account))
       ''Stalwart E2E Monitor''") auto
  define s1 where "s1 = fst (smtp_send env_never (smtp example_account) raw start_state)"
  have ss: "smtp_send env_never (smtp example_account) raw start_state = (s1, Inr 250)"
    using example_sent[of env_never raw start_state]
    by (simp add: s1_def prod_eq_iff env_never_def env_found_def)
  have now1: "now s1 = 1 / 4"
    using smtp_send_effect[OF ss] by (simp add: env_never_def env_found_def start_state_def)
  have ic: "snd (imap_connect env_never (imap example_account) s1) = None"
    by (rule example_connected) (simp add: env_never_def env_found_def)
  have T: "0 \<le> timeout_seconds (poll example_account)"
    and I: "0 < interval_seconds (poll example_account)"
    by (simp_all add: example_account_def)
  have nm: "\<forall>n b. snd (imap_search_for_token env_never n (mailbox (imap example_account)) token msg_id)
              \<noteq> Inr (Some b)"
    by (simp add: never_search env_never_def env_found_def)
  have cd: "0 \<le> imap_connect_elapsed env_never \<and> imap_connect_elapsed env_never \<le> 0"
    and dur: "\<forall>n. 0 \<le> attempt_elapsed env_never n \<and> attempt_elapsed env_never n \<le> 0"
    and z: "imap_connect_elapsed env_never = 0 \<and> (\<forall>n. attempt_elapsed env_never n = 0)"
    by (simp_all add: env_never_def env_found_def)
  have tr: "attempts_made (trace start_state) = 0" by (simp add: start_state_def)
  have c: "nat \<lceil>real_of_int (timeout_seconds (poll example_account)) /
                real_of_int (interval_seconds (poll example_account))\<rceil> = 2"
    by (simp add: example_account_def)
  have ti: "real_of_int (timeout_seconds (poll example_account)) = 10"
    "real_of_int (interval_seconds (poll example_account)) = 5"
    by (simp_all add: example_account_def)
  note t = poll_timeout_window[OF example_fields bm ss ic T I nm cd dur]
  show ?thesis
    using t z example_fields T I unfolding c ti now1 tr by auto
qed

text \<open>
  Claim C2 as stated fails when the mailbox is slow: with \<open>T = 10\<close>, \<open>I = 5\<close> and a first poll
  attempt of twenty seconds, the loop ends twenty-five seconds after the deadline was set,
  which is later than \<open>T + I\<close>, and after one attempt, not two or three.
\<close>

theorem poll_timeout_window_counterexample:
  "map_option snd (run_for_account env_slow example_account start_state) =
     Some (Inr (False, ''IMAP timeout: message not found'', Some 250)) \<and>
   now (fst (the (run_for_account env_slow example_account start_state))) = 1 / 4 + 25 \<and>
   \<not> (1 / 4 + 25 \<le> 1 / 4 + (10 :: real) + 5) \<and>
   attempts_made (trace (fst (the (run_for_account env_slow example_account start_state)))) = 1 \<and>
   \<not> (2 \<le> (1 :: nat))"
proof -
  obtain token raw msg_id where bm:
    "build_message (uuid4_hex env_slow) (formatdate env_slow)
       (from_addr (smtp example_account)) (to_addr (smtp example_account))
       ''Stalwart E2E Monitor'' = (token, raw, msg_id)"
    by (cases "build_message (uuid4_hex env_slow) (formatdate env_slow)
       (from_addr (smtp example_account)) (to_addr (smtp example_account))
       ''Stalwart E2E Monitor''") auto
  define s1 where "s1 = fst (smtp_send env_slow (smtp example_account) raw start_state)"
  have ss: "smtp_send env_slow (smtp example_account) raw start_state = (s1, Inr 250)"
    using example_sent[of env_slow raw start_state]
    by (simp add: s1_def prod_eq_iff env_slow_def env_never_def env_found_def)
  have now1: "now s1 = 1 / 4" and att1: "attempts_made (trace s1) = 0"
    using smtp_send_effect[OF ss]
    by (simp_all add: env_slow_def env_never_def env_found_def start_state_def)
  let ?s2 = "emit [Log INFO ''%s: SMTP sent ok (%.0f ms) token=%s''
                     [LStr (name example_account), LNum 250, LStr token]] s1"
  define s3 where "s3 = fst (imap_connect env_slow (imap example_account) ?s2)"
  have conn: "imap_connect env_slow (imap example_account) ?s2 = (s3, None)"
    using example_connected[of env_slow ?s2]
    by (simp add: s3_def prod_eq_iff env_slow_def env_never_def env_found_def)
  have now3: "now s3 = 1 / 4" and att3: "attempts_made (trace s3) = 0"
    using imap_connect_effect[of env_slow "imap example_account" ?s2] now1 att1
    by (simp_all add: s3_def env_slow_def env_never_def env_found_def)
  have sel: "select_reply env_slow n = Inr ''OK''"
    and sea: "search_reply env_slow n = (\<lambda>crit. Inr (''OK'', [Some '''']))" for n
    by (simp_all add: env_slow_def env_never_def env_found_def)
  let ?evs = "Call (Select ''INBOX'') # map (\<lambda>c. Call (Search c)) (criteria_list token msg_id)"
  define s4 where "s4 = tick 5 (emit [Call (Sleep 5)] (tick 20 (emit ?evs s3)))"
  have body: "poll_body env_slow example_account token msg_id 0 None s3 = Again None s4"
    using never_search[OF sel sea, of 0 "''INBOX''" token msg_id]
    by (simp add: poll_body_def sleep_then_again_def sleep_def found_truthy_def s4_def
        example_account_def env_slow_def env_never_def)
  have now4: "now s4 = 1 / 4 + 25" by (simp add: s4_def now3)
  have att4: "attempts_made (trace s4) = 1"
    by (simp add: s4_def att3)
  have l1: "poll_loop env_slow example_account token msg_id (41 / 4) (Suc 0) None s4 =
              Some (s4, Inr None)"
    by (subst poll_loop.simps) (simp add: now4)
  have l0: "poll_loop env_slow example_account token msg_id (41 / 4) 0 None s3 =
              Some (s4, Inr None)"
    by (subst poll_loop.simps) (simp add: now3 body l1)
  have T10: "real_of_int (timeout_seconds (poll example_account)) = 10"
    by (simp add: example_account_def)
  have run: "run_for_account env_slow example_account start_state =
      Some (emit [Call Logout]
              (emit [Log ERROR ''%s: Message not found within timeout (token=%s)''
                       [LStr (name example_account), LStr token]] s4),
            Inr (False, ''IMAP timeout: message not found'', Some 250))"
    by (simp add: run_for_account_def Let_def after_poll_def found_truthy_def
        example_fields bm ss conn now1 T10 l0)
  show ?thesis
    unfolding run using now4 att4 by simp
qed

subsection \<open>Configuration and exit code\<close>

lemma run_accounts_verdicts:
  "run_accounts envs i accts ok s = Some (sf, r) \<Longrightarrow>
     r = Inr (ok \<and> list_all id (probe_verdicts envs i accts s)) \<or>
     (\<exists>e. r = Inl e) \<and> \<not> list_all id (probe_verdicts envs i accts s)"
proof (induction accts arbitrary: i ok s)
  case Nil
  then show ?case by simp
next
  case (Cons acct rest)
  show ?case
  proof (cases "account_turn envs i acct s")
    case None
    then show ?thesis using Cons.prems by simp
  next
    case (Some p)
    obtain s' x where p: "p = (s', x)" by (cases p)
    show ?thesis
    proof (cases x)
      case (Inl e)
      then show ?thesis using Cons.prems Some p by auto
    next
      case (Inr b)
      then have "run_accounts envs (Suc i) rest (ok \<and> b) s' = Some (sf, r)"
        using Cons.prems Some p by simp
      from Cons.IH[OF this] show ?thesis using Some p Inr by auto
    qed
  qed
qed

text \<open>
  The exit status in terms of the code: when \<open>parse_config\<close> raises, \<open>main\<close> returns 2;
  when it returns accounts and the run ends, the status is 0 if every call of
  \<open>run_for_account\<close> returned success and 1 otherwise.
\<close>

lemma main_exit_status:
  "(snd (parse_config loaded selected) = Inl e \<longrightarrow>
      (\<exists>sf. main loaded selected envs s = Some (sf, Inr 2))) \<and>
   (main loaded selected envs s = Some (sf, r) \<longrightarrow>
      exit_status r =
        (case snd (parse_config loaded selected) of
           Inl e \<Rightarrow> 2
         | Inr accounts \<Rightarrow>
             if list_all id (probe_verdicts envs 0 accounts
                               (emit (fst (parse_config loaded selected)) s))
             then 0 else 1))"
proof (intro conjI impI)
  assume "snd (parse_config loaded selected) = Inl e"
  then show "\<exists>sf. main loaded selected envs s = Some (sf, Inr 2)"
    by (cases "parse_config loaded selected") (simp add: main_def)
next
  assume m: "main loaded selected envs s = Some (sf, r)"
  obtain evs pr where pc: "parse_config loaded selected = (evs, pr)"
    by (cases "parse_config loaded selected")
  show "exit_status r =
        (case snd (parse_config loaded selected) of
           Inl e \<Rightarrow> 2
         | Inr accounts \<Rightarrow>
             if list_all id (probe_verdicts envs 0 accounts
                               (emit (fst (parse_config loaded selected)) s))
             then 0 else 1)"
  proof (cases pr)
    case (Inl e)
    then show ?thesis using m pc by (auto simp: main_def exit_status_def)
  next
    case (Inr accounts)
    show ?thesis
    proof (cases "run_accounts envs 0 accounts True (emit evs s)")
      case None
      then show ?thesis using m pc Inr by (simp add: main_def)
    next
      case (Some q)
      obtain s' x where q: "q = (s', x)" by (cases q)
      from run_accounts_verdicts[of envs 0 accounts True "emit evs s" s' x] Some q
      have v: "x = Inr (list_all id (probe_verdicts envs 0 accounts (emit evs s))) \<or>
               (\<exists>e. x = Inl e) \<and> \<not> list_all id (probe_verdicts envs 0 accounts (emit evs s))"
        by simp
      show ?thesis
        using m pc Inr Some q v
        by (auto simp: main_def exit_status_def split: sum.splits if_splits)
    qed
  qed
qed

lemma parse_ok:
  "parse_config (Inr config_ok) None =
     ([Log DEBUG ''Loaded config: %s'' [LObj (redact_config config_ok)]], Inr [example_account])"
  by (simp add: config_ok_def account_entry_def example_account_def parse_defs)

lemma parse_no_host:
  "parse_config (Inr config_no_host) None =
     ([Log DEBUG ''Loaded config: %s'' [LObj (redact_config config_no_host)]],
      Inr [example_account\<lparr>smtp := (smtp example_account)\<lparr>smtp_host := ''None''\<rparr>\<rparr>])"
  by (simp add: config_no_host_def account_entry_def example_account_def parse_defs)

lemma parse_no_from:
  "parse_config (Inr config_no_from) None =
     ([Log DEBUG ''Loaded config: %s'' [LObj (redact_config config_no_from)]],
      Inr [example_account\<lparr>smtp := (smtp example_account)\<lparr>from_addr := PNone\<rparr>\<rparr>,
           example_account\<lparr>name := ''b''\<rparr>])"
  by (simp add: config_no_from_def account_entry_def example_account_def parse_defs)

lemma run_example_found:
  "\<exists>sf. run_for_account env_found example_account s = Some (sf, Inr (True, ''OK'', Some 250))"
proof -
  obtain token raw msg_id where bm:
    "build_message (uuid4_hex env_found) (formatdate env_found)
       (from_addr (smtp example_account)) (to_addr (smtp example_account))
       ''Stalwart E2E Monitor'' = (token, raw, msg_id)"
    by (cases "build_message (uuid4_hex env_found) (formatdate env_found)
       (from_addr (smtp example_account)) (to_addr (smtp example_account))
       ''Stalwart E2E Monitor''") auto
  define s1 where "s1 = fst (smtp_send env_found (smtp example_account) raw s)"
  have ss: "smtp_send env_found (smtp example_account) raw s = (s1, Inr 250)"
    using example_sent[of env_found raw s]
    by (simp add: s1_def prod_eq_iff env_found_def)
  let ?s2 = "emit [Log INFO ''%s: SMTP sent ok (%.0f ms) token=%s''
                     [LStr (name example_account), LNum 250, LStr token]] s1"
  define s3 where "s3 = fst (imap_connect env_found (imap example_account) ?s2)"
  have conn: "imap_connect env_found (imap example_account) ?s2 = (s3, None)"
    using example_connected[of env_found ?s2]
    by (simp add: s3_def prod_eq_iff env_found_def)
  have now3: "now s3 = now s1"
    using imap_connect_effect[of env_found "imap example_account" ?s2]
    by (simp add: s3_def env_found_def)
  have T10: "real_of_int (timeout_seconds (poll example_account)) = 10"
    by (simp add: example_account_def)
  have lt: "now s3 < now s1 + 10" by (simp add: now3)
  have sel: "select_reply env_found 0 = Inr ''OK''"
    and sea: "search_reply env_found 0 = (\<lambda>crit. Inr (''OK'', [Some ''3 7 12'']))"
    by (simp_all add: env_found_def)
  note pl = example_found[OF sel sea lt, of example_account token msg_id None]
  have dos: "delete_on_success example_account" by (simp add: example_account_def)
  have del: "imap_delete env_found ''12'' =
     ([Call (Store ''12'' ''+FLAGS'' (''('' @ [CHR 0x5C] @ ''Deleted)'')), Call Expunge], None)"
    by (simp add: imap_delete_def env_found_def)
  show ?thesis
    by (simp add: run_for_account_def Let_def after_poll_def found_truthy_def cleanup_def
        example_fields bm ss conn T10 pl dos del)
qed

lemma main_ok: "\<exists>sf. main (Inr config_ok) None (\<lambda>i. env_found) start_state = Some (sf, Inr 0)"
proof -
  obtain sf where r: "run_for_account env_found example_account
      (emit [Log INFO ''Running monitor for account: %s'' [LStr (name example_account)]]
         (emit [Log DEBUG ''Loaded config: %s'' [LObj (redact_config config_ok)]] start_state)) =
        Some (sf, Inr (True, ''OK'', Some 250))"
    using run_example_found by blast
  have pu: "\<not> truthy (push_url (kuma example_account))" by (simp add: example_account_def)
  show ?thesis
    by (simp add: main_def parse_ok account_turn_def r pu)
qed

lemma main_no_host:
  "main (Inr config_no_host) None (\<lambda>i. env_unresolved) start_state =
     Some (\<lparr>now = 1 / 4,
            trace = [Log DEBUG ''Loaded config: %s'' [LObj (redact_config config_no_host)],
                     Log INFO ''Running monitor for account: %s'' [LStr ''a''],
                     Log DEBUG ''Preparing SMTP connection to %s:%s security=%s''
                       [LStr ''None'', LInt 465, LStr ''ssl''],
                     Call (SMTP_SSL ''None'' 465 30),
                     Log ERROR ''%s: SMTP send failed: %s'' [LStr ''a'', LExn resolve_error],
                     Log WARNING ''Account %s failed: %s''
                       [LStr ''a'',
                        LStr ''SMTP failed: gaierror: [Errno -2] Name or service not known'']]\<rparr>,
           Inr 1)"
  by (simp add: main_def parse_no_host account_turn_def run_for_account_def missing_field_def
      build_message_def smtp_send_def example_account_def env_unresolved_def env_found_def
      resolve_error_def start_state_def emit_def tick_def Let_def)

lemma main_no_from:
  "main (Inr config_no_from) None (\<lambda>i. env_found) start_state =
     Some (\<lparr>now = 0,
            trace = [Log DEBUG ''Loaded config: %s'' [LObj (redact_config config_no_from)],
                     Log INFO ''Running monitor for account: %s'' [LStr ''a'']]\<rparr>,
           Inl (ValueError ''Account a: missing required field smtp.from''))"
  by (simp add: main_def parse_no_from account_turn_def run_for_account_def missing_field_def
      example_account_def start_state_def emit_def)

lemma main_exit_status_examples:
  "snd (parse_config (Inl io_error) None) = Inl io_error \<and>
   (\<exists>sf. main (Inl io_error) None (\<lambda>i. env_found) start_state = Some (sf, Inr 2)) \<and>
   (\<exists>sf. main (Inr config_ok) None (\<lambda>i. env_found) start_state = Some (sf, Inr 0)) \<and>
   list_all id (probe_verdicts (\<lambda>i. env_found) 0 [example_account]
                  (emit [Log DEBUG ''Loaded config: %s'' [LObj (redact_config config_ok)]] start_state)) \<and>
   (\<exists>sf. main (Inr config_no_host) None (\<lambda>i. env_unresolved) start_state = Some (sf, Inr 1)) \<and>
   \<not> list_all id (probe_verdicts (\<lambda>i. env_unresolved) 0
                    [example_account\<lparr>smtp := (smtp example_account)\<lparr>smtp_host := ''None''\<rparr>\<rparr>]
                    (emit [Log DEBUG ''Loaded config: %s'' [LObj (redact_config config_no_host)]]
                       start_state))"
proof -
  have p: "snd (parse_config (Inl io_error) None) = Inl io_error"
    by (simp add: parse_config_def bindE_def)
  have a: "\<exists>sf. main (Inl io_error) None (\<lambda>i. env_found) start_state = Some (sf, Inr 2)"
    using conjunct1[OF main_exit_status[of "Inl io_error" None io_error "\<lambda>i. env_found" start_state]] p
    by simp
  obtain sf where m: "main (Inr config_ok) None (\<lambda>i. env_found) start_state = Some (sf, Inr 0)"
    using main_ok by blast
  note t0 = conjunct2[OF main_exit_status
      [of "Inr config_ok" None _ "\<lambda>i. env_found" start_state sf "Inr 0"], rule_format, OF m]
  have b: "list_all id (probe_verdicts (\<lambda>i. env_found) 0 [example_account]
                  (emit [Log DEBUG ''Loaded config: %s'' [LObj (redact_config config_ok)]] start_state))"
    using t0 by (simp add: parse_ok exit_status_def del: probe_verdicts.simps split: if_splits)
  obtain sf1 where m1:
    "main (Inr config_no_host) None (\<lambda>i. env_unresolved) start_state = Some (sf1, Inr 1)"
    using main_no_host by simp
  note t1 = conjunct2[OF main_exit_status
      [of "Inr config_no_host" None _ "\<lambda>i. env_unresolved" start_state sf1 "Inr 1"], rule_format, OF m1]
  have c: "\<not> list_all id (probe_verdicts (\<lambda>i. env_unresolved) 0
                    [example_account\<lparr>smtp := (smtp example_account)\<lparr>smtp_host := ''None''\<rparr>\<rparr>]
                    (emit [Log DEBUG ''Loaded config: %s'' [LObj (redact_config config_no_host)]]
                       start_state))"
    using t1 by (simp add: parse_no_host exit_status_def del: probe_verdicts.simps split: if_splits)
  show ?thesis using p a m b c m1 by blast
qed

text \<open>
  Claim C6 on a failing input. The only account of \<open>config_no_host\<close> has no \<open>smtp.host\<close>.
  \<open>parse_config\<close> raises nothing: \<open>str\<close> turns the absent value into the string \<open>None\<close>,
  which the check for an empty host lets pass. The run then sends to the host \<open>None\<close>, and
  its exit code is that of the probe, here 1, not 2. \<open>parse_config\<close> does not look at
  the sender and recipient addresses at all.
\<close>

theorem missing_host_passes_validation:
  "snd (parse_config (Inr config_no_host) None) =
     Inr [example_account\<lparr>smtp := (smtp example_account)\<lparr>smtp_host := ''None''\<rparr>\<rparr>] \<and>
   snd (parse_config (Inr config_no_from) None) =
     Inr [example_account\<lparr>smtp := (smtp example_account)\<lparr>from_addr := PNone\<rparr>\<rparr>,
          example_account\<lparr>name := ''b''\<rparr>] \<and>
   map_option snd (main (Inr config_no_host) None (\<lambda>i. env_unresolved) start_state) = Some (Inr 1) \<and>
   Call (SMTP_SSL ''None'' 465 30) \<in>
     set (trace (fst (the (main (Inr config_no_host) None (\<lambda>i. env_unresolved) start_state))))"
  by (simp add: parse_no_host parse_no_from main_no_host)

text \<open>
  Claim C7 on a failing input. The first account of \<open>config_no_from\<close> has no sender
  address. \<open>run_for_account\<close> raises \<open>ValueError\<close> for it, nothing in \<open>main\<close> catches the
  exception, and the run ends there: the second account, which is complete, is never
  started.
\<close>

theorem missing_sender_aborts_run:
  "main (Inr config_no_from) None (\<lambda>i. env_found) start_state =
     Some (\<lparr>now = 0,
            trace = [Log DEBUG ''Loaded config: %s'' [LObj (redact_config config_no_from)],
                     Log INFO ''Running monitor for account: %s'' [LStr ''a'']]\<rparr>,
           Inl (ValueError ''Account a: missing required field smtp.from'')) \<and>
   exit_status (Inl (ValueError ''Account a: missing required field smtp.from'')) = 1"
  by (simp add: main_no_from exit_status_def)

lemma parse_timeout_zero:
  "parse_config (Inr config_timeout_zero) None =
     ([Log DEBUG ''Loaded config: %s'' [LObj (redact_config config_timeout_zero)]],
      Inr [example_account\<lparr>smtp := (smtp example_account)\<lparr>smtp_timeout := 0\<rparr>\<rparr>])"
  by (simp add: config_timeout_zero_def account_entry_def example_account_def parse_defs)

lemma run_timeout_zero:
  "run_for_account env_nonblocking
     (example_account\<lparr>smtp := (smtp example_account)\<lparr>smtp_timeout := 0\<rparr>\<rparr>) s =
     Some (tick (1 / 4)
             (emit [Log DEBUG ''Preparing SMTP connection to %s:%s security=%s''
                      [LStr ''mx'', LInt 465, LStr ''ssl''],
                    Call (SMTP_SSL ''mx'' 465 0)] s),
           Inl nonblocking_error)"
  by (simp add: run_for_account_def missing_field_def build_message_def smtp_send_def
      example_account_def env_nonblocking_def env_found_def nonblocking_error_def ValueError_def
      emit_def tick_def Let_def)

lemma main_timeout_zero:
  "main (Inr config_timeout_zero) None (\<lambda>i. env_nonblocking) start_state =
     Some (\<lparr>now = 1 / 4,
            trace = [Log DEBUG ''Loaded config: %s'' [LObj (redact_config config_timeout_zero)],
                     Log INFO ''Running monitor for account: %s'' [LStr ''a''],
                     Log DEBUG ''Preparing SMTP connection to %s:%s security=%s''
                       [LStr ''mx'', LInt 465, LStr ''ssl''],
                     Call (SMTP_SSL ''mx'' 465 0)]\<rparr>,
           Inl nonblocking_error)"
  by (simp add: main_def parse_timeout_zero account_turn_def run_for_account_def missing_field_def
      build_message_def smtp_send_def example_account_def env_nonblocking_def env_found_def
      nonblocking_error_def ValueError_def start_state_def emit_def tick_def Let_def)

text \<open>
  Claim C4 on a failing input. The account of \<open>config_timeout_zero\<close> has \<open>smtp.timeout\<close> 0,
  which \<open>parse_config\<close> accepts and \<open>smtplib\<close> refuses with a \<open>ValueError\<close> when the connection
  is opened. The send has failed, but \<open>ValueError\<close> is neither an \<open>SMTPException\<close> nor a
  \<open>socket.error\<close>: \<open>run_for_account\<close> returns no outcome, the exception leaves it and
  \<open>main\<close>. No call to the mailbox has been made.
\<close>

theorem send_value_error_escapes:
  "snd (parse_config (Inr config_timeout_zero) None) =
     Inr [example_account\<lparr>smtp := (smtp example_account)\<lparr>smtp_timeout := 0\<rparr>\<rparr>] \<and>
   family nonblocking_error = OtherException \<and>
   run_for_account env_nonblocking
     (example_account\<lparr>smtp := (smtp example_account)\<lparr>smtp_timeout := 0\<rparr>\<rparr>) start_state =
     Some (\<lparr>now = 1 / 4,
            trace = [Log DEBUG ''Preparing SMTP connection to %s:%s security=%s''
                       [LStr ''mx'', LInt 465, LStr ''ssl''],
                     Call (SMTP_SSL ''mx'' 465 0)]\<rparr>,
           Inl nonblocking_error) \<and>
   map_option snd (main (Inr config_timeout_zero) None (\<lambda>i. env_nonblocking) start_state) =
     Some (Inl nonblocking_error)"
proof (intro conjI)
  show "snd (parse_config (Inr config_timeout_zero) None) =
     Inr [example_account\<lparr>smtp := (smtp example_account)\<lparr>smtp_timeout := 0\<rparr>\<rparr>]"
    by (simp add: parse_timeout_zero)
  show "family nonblocking_error = OtherException"
    by (simp add: nonblocking_error_def ValueError_def)
  show "run_for_account env_nonblocking
     (example_account\<lparr>smtp := (smtp example_account)\<lparr>smtp_timeout := 0\<rparr>\<rparr>) start_state =
     Some (\<lparr>now = 1 / 4,
            trace = [Log DEBUG ''Preparing SMTP connection to %s:%s security=%s''
                       [LStr ''mx'', LInt 465, LStr ''ssl''],
                     Call (SMTP_SSL ''mx'' 465 0)]\<rparr>,
           Inl nonblocking_error)"
    by (simp add: run_timeout_zero start_state_def emit_def tick_def)
  show "map_option snd (main (Inr config_timeout_zero) None (\<lambda>i. env_nonblocking) start_state) =
     Some (Inl nonblocking_error)"
    by (simp add: main_timeout_zero)
qed

text \<open>
  Claim C8 on a failing input. The first account of \<open>config_no_from\<close> has no sender
  address. \<open>parse_config\<close> returns it, \<open>run_for_account\<close> rejects it with its own error for
  a missing required field, and the exception, which nothing catches, ends the process
  with status 1, not 2. The same holds for \<open>config_no_host\<close>, whose account has no
  \<open>smtp.host\<close>: \<open>main\<close> returns 1.
\<close>

theorem invalid_config_exits_one:
  "snd (parse_config (Inr config_no_from) None) =
     Inr [example_account\<lparr>smtp := (smtp example_account)\<lparr>from_addr := PNone\<rparr>\<rparr>,
          example_account\<lparr>name := ''b''\<rparr>] \<and>
   missing_field (example_account\<lparr>smtp := (smtp example_account)\<lparr>from_addr := PNone\<rparr>\<rparr>) =
     Some ''smtp.from'' \<and>
   map_option (\<lambda>(sf, r). exit_status r)
     (main (Inr config_no_from) None (\<lambda>i. env_found) start_state) = Some 1 \<and>
   snd (parse_config (Inr config_no_host) None) =
     Inr [example_account\<lparr>smtp := (smtp example_account)\<lparr>smtp_host := ''None''\<rparr>\<rparr>] \<and>
   map_option (\<lambda>(sf, r). exit_status r)
     (main (Inr config_no_host) None (\<lambda>i. env_unresolved) start_state) = Some 1"
  by (simp add: parse_no_from parse_no_host main_no_from main_no_host exit_status_def
      missing_field_def example_account_def)

end
